theory Spec2Isabelle
  imports Main "HOL-Library.AList"
begin

section \<open>JavaScript values and plain objects\<close>

text \<open>
  The agent is written in TypeScript. Values of type \<^verbatim>\<open>any\<close> (tool arguments, metadata)
  are modelled by \<open>jsval\<close>; numbers are integers. \<open>JInherited k\<close> stands for the member
  \<open>k\<close> that every plain object inherits from \<^verbatim>\<open>Object.prototype\<close> (it is what
  \<^verbatim>\<open>input[k]\<close> reads when \<open>k\<close> is not an own property but is found on the prototype chain).

  A plain object used as a dictionary is the list of its own properties in creation order.
  Three operations of the language are written out because the code relies on them:
  \<^item> \<^verbatim>\<open>Object.keys\<close> / \<^verbatim>\<open>Object.entries\<close> list the own keys that are array indices first,
    in ascending numeric order, and then the other keys in creation order;
  \<^item> \<^verbatim>\<open>k in obj\<close> is true for own keys and for the members of \<^verbatim>\<open>Object.prototype\<close>;
  \<^item> \<^verbatim>\<open>obj[k] = v\<close> keeps the position of an existing key, appends a new key, and for the
    key \<^verbatim>\<open>__proto__\<close> creates no own property.

  The source's string literals are Chinese; the model writes an English gloss of each.
  A thrown \<^verbatim>\<open>Error\<close> is represented by the string that \<^verbatim>\<open>`${error}`\<close> renders.
\<close>

datatype jsval =
    JUndefined
  | JNull
  | JBool bool
  | JNum int
  | JStr string
  | JArr "jsval list"
  | JObj "(string \<times> jsval) list"
  | JInherited string

type_synonym 'v jsobject = "(string \<times> 'v) list"

fun truthy :: "jsval \<Rightarrow> bool" where
  "truthy JUndefined = False"
| "truthy JNull = False"
| "truthy (JBool b) = b"
| "truthy (JNum n) = (n \<noteq> 0)"
| "truthy (JStr s) = (s \<noteq> [])"
| "truthy (JArr xs) = True"
| "truthy (JObj kvs) = True"
| "truthy (JInherited k) = True"

definition is_digit :: "char \<Rightarrow> bool" where
  "is_digit c = (c \<in> set ''0123456789'')"

definition dec_value :: "string \<Rightarrow> nat" where
  "dec_value s = foldl (\<lambda>n c. 10 * n + (of_char c - 48)) 0 s"

definition is_array_index :: "string \<Rightarrow> bool" where
  "is_array_index s \<longleftrightarrow>
     s \<noteq> [] \<and> list_all is_digit s \<and> (s = ''0'' \<or> hd s \<noteq> CHR ''0'') \<and> dec_value s < 2 ^ 32 - 1"

definition object_entries :: "'v jsobject \<Rightarrow> (string \<times> 'v) list" where
  "object_entries obj =
     sort_key (\<lambda>kv. dec_value (fst kv)) (filter (\<lambda>kv. is_array_index (fst kv)) obj)
     @ filter (\<lambda>kv. \<not> is_array_index (fst kv)) obj"

definition object_keys :: "'v jsobject \<Rightarrow> string list" where
  "object_keys obj = map fst (object_entries obj)"

definition object_prototype_names :: "string list" where
  "object_prototype_names =
     [''constructor'', ''__defineGetter__'', ''__defineSetter__'', ''hasOwnProperty'',
      ''__lookupGetter__'', ''__lookupSetter__'', ''isPrototypeOf'', ''propertyIsEnumerable'',
      ''toString'', ''valueOf'', ''__proto__'', ''toLocaleString'']"

definition js_in :: "string \<Rightarrow> 'v jsobject \<Rightarrow> bool" where
  "js_in k obj \<longleftrightarrow> k \<in> fst ` set obj \<or> k \<in> set object_prototype_names"

definition js_get :: "jsval jsobject \<Rightarrow> string \<Rightarrow> jsval" where
  "js_get obj k =
     (case map_of obj k of
        Some v \<Rightarrow> v
      | None \<Rightarrow> if k \<in> set object_prototype_names then JInherited k else JUndefined)"

definition object_set :: "string \<Rightarrow> 'v \<Rightarrow> 'v jsobject \<Rightarrow> 'v jsobject" where
  "object_set k v obj = (if k = ''__proto__'' then obj else AList.update k v obj)"

text \<open>
  \<^verbatim>\<open>Map\<close> and \<^verbatim>\<open>Set\<close> iterate in insertion order whatever the keys are:
  \<^verbatim>\<open>Map.set\<close> is \<open>AList.update\<close> (in place for a present key, at the end for a new one),
  \<^verbatim>\<open>Map.get\<close> is \<open>map_of\<close>, \<^verbatim>\<open>Map.delete\<close> is \<open>AList.delete\<close>.
\<close>

definition map_has :: "'k \<Rightarrow> ('k \<times> 'v) list \<Rightarrow> bool" where
  "map_has k m \<longleftrightarrow> k \<in> fst ` set m"

definition set_add :: "'a \<Rightarrow> 'a list \<Rightarrow> 'a list" where
  "set_add x s = (if x \<in> set s then s else s @ [x])"

definition set_delete :: "'a \<Rightarrow> 'a list \<Rightarrow> 'a list" where
  "set_delete x s = removeAll x s"

fun join :: "string \<Rightarrow> string list \<Rightarrow> string" where
  "join sep [] = []"
| "join sep [x] = x"
| "join sep (x # y # ys) = x @ sep @ join sep (y # ys)"


section \<open>Messages and content blocks (message/Message.ts, types)\<close>

record ToolUseBlock =
  tu_id :: string
  tu_name :: string
  tu_input :: "jsval jsobject"

record ToolResultBlock =
  tr_id :: string
  tr_name :: string
  tr_output :: jsval

datatype ContentBlock =
    TextBlock string
  | ThinkingBlock string
  | ToolUse ToolUseBlock
  | ToolResult ToolResultBlock

datatype MessageContent =
    PlainText string
  | Blocks "ContentBlock list"
  | OtherContent jsval

datatype MessageRole = System | User | Assistant

text \<open>
  \<^verbatim>\<open>new Message(name, content, role, metadata = {})\<close>. The random \<^verbatim>\<open>id\<close> that the constructor
  draws is not part of the model: no operation below reads it.
\<close>

record Message =
  name :: string
  content :: MessageContent
  role :: MessageRole
  metadata :: jsval

definition new_Message :: "string \<Rightarrow> MessageContent \<Rightarrow> MessageRole \<Rightarrow> Message" where
  "new_Message n c r = \<lparr>name = n, content = c, role = r, metadata = JObj []\<rparr>"

fun block_type :: "ContentBlock \<Rightarrow> string" where
  "block_type (TextBlock t) = ''text''"
| "block_type (ThinkingBlock t) = ''thinking''"
| "block_type (ToolUse u) = ''tool_use''"
| "block_type (ToolResult r) = ''tool_result''"

fun text_of_block :: "ContentBlock \<Rightarrow> string option" where
  "text_of_block (TextBlock t) = Some t"
| "text_of_block b = None"

definition getTextContent :: "Message \<Rightarrow> string" where
  "getTextContent m =
     (case content m of
        PlainText s \<Rightarrow> s
      | OtherContent v \<Rightarrow> []
      | Blocks bs \<Rightarrow> join ''\<newline>'' (List.map_filter text_of_block bs))"

definition getContentBlocks :: "Message \<Rightarrow> string option \<Rightarrow> ContentBlock list" where
  "getContentBlocks m ty =
     (case content m of
        PlainText s \<Rightarrow> (if ty = None \<or> ty = Some [] \<or> ty = Some ''text'' then [TextBlock s] else [])
      | OtherContent v \<Rightarrow> []
      | Blocks bs \<Rightarrow>
          (case ty of
             None \<Rightarrow> bs
           | Some t \<Rightarrow> if t = [] then bs else filter (\<lambda>b. block_type b = t) bs))"

definition hasContentBlocks :: "Message \<Rightarrow> string \<Rightarrow> bool" where
  "hasContentBlocks m ty \<longleftrightarrow> length (getContentBlocks m (Some ty)) > 0"

definition setContent :: "MessageContent \<Rightarrow> Message \<Rightarrow> Message" where
  "setContent c m = m\<lparr>content := c\<rparr>"

definition createTextBlock :: "string \<Rightarrow> ContentBlock" where
  "createTextBlock t = TextBlock t"

definition createToolUseBlock :: "string \<Rightarrow> jsval jsobject \<Rightarrow> string \<Rightarrow> ContentBlock" where
  "createToolUseBlock n inp i = ToolUse \<lparr>tu_id = i, tu_name = n, tu_input = inp\<rparr>"

definition createToolResultBlock :: "string \<Rightarrow> string \<Rightarrow> jsval \<Rightarrow> ContentBlock" where
  "createToolResultBlock i n out = ToolResult \<lparr>tr_id = i, tr_name = n, tr_output = out\<rparr>"

definition createSystemMessage :: "string \<Rightarrow> Message" where
  "createSystemMessage c = new_Message ''system'' (PlainText c) System"

definition createUserMessage :: "string \<Rightarrow> string \<Rightarrow> Message" where
  "createUserMessage c n = new_Message n (PlainText c) User"

definition createToolResultMessage :: "ContentBlock list \<Rightarrow> Message" where
  "createToolResultMessage rs = new_Message ''system'' (Blocks rs) System"

fun tool_uses :: "ContentBlock list \<Rightarrow> ToolUseBlock list" where
  "tool_uses [] = []"
| "tool_uses (ToolUse u # bs) = u # tool_uses bs"
| "tool_uses (b # bs) = tool_uses bs"


section \<open>Tool responses (tool/ToolResponse.ts)\<close>

text \<open>
  \<^verbatim>\<open>metadata\<close> is a \<^verbatim>\<open>Record<string, any>\<close>; the controller reads two of its keys,
  \<^verbatim>\<open>success\<close> (for truthiness) and \<^verbatim>\<open>response_msg\<close>. The remaining keys are kept in \<open>others\<close>.
\<close>

record ToolResponseMetadata =
  success :: bool
  response_msg :: "Message option"
  others :: "jsval jsobject"

record ToolResponse =
  resp_content :: "ContentBlock list"
  resp_metadata :: ToolResponseMetadata
  is_last :: bool

definition new_ToolResponse :: "string \<Rightarrow> ToolResponseMetadata \<Rightarrow> bool \<Rightarrow> ToolResponse" where
  "new_ToolResponse txt md lst =
     \<lparr>resp_content = [createTextBlock txt], resp_metadata = md, is_last = lst\<rparr>"

definition createErrorResponse :: "string \<Rightarrow> ToolResponse" where
  "createErrorResponse err =
     new_ToolResponse (''error: '' @ err)
       \<lparr>success = False, response_msg = None, others = [(''error'', JStr err)]\<rparr> True"


section \<open>Toolkit (tool/Toolkit.ts)\<close>

text \<open>
  A tool function either throws when called, returns one response that is not a generator,
  or returns an asynchronous generator: the finite list of responses it yields and, possibly,
  the error it raises after them. Two functions of the agent itself are registered as tools
  (\<^verbatim>\<open>generateResponse\<close> and \<^verbatim>\<open>createResetToolsWrapper\<close>); both are generator functions whose
  bodies read or change the agent, so they are kept by name and run in section Acting.

  Of an external function the model keeps, besides what a call does, the three things that
  \<^verbatim>\<open>registerToolFunction\<close> reads: its \<^verbatim>\<open>name\<close>, its \<^verbatim>\<open>description\<close> or \<^verbatim>\<open>__doc__\<close>
  property, and the first token of every entry of the parameter list in its source text, which
  is what the regular expression of \<^verbatim>\<open>extractFunctionMetadata\<close> finds.
\<close>

datatype ToolOutcome =
    ToolThrows string
  | ToolReturns ToolResponse
  | ToolYields "ToolResponse list" "string option"

record ExternalFunction =
  fn_name :: string
  fn_doc :: "string option"
  fn_source_params :: "string list"
  fn_call :: "jsval list \<Rightarrow> ToolOutcome"

datatype ToolFunction =
    GenerateResponse
  | CreateResetToolsWrapper
  | External ExternalFunction

type_synonym StructuredModel = "jsval \<Rightarrow> string + jsval"

record ToolParameterSchema =
  schema_type :: string
  properties :: "jsval jsobject option"
  required :: "string list option"

record ToolFunctionMetadata =
  tool_name :: string
  func :: ToolFunction
  description :: string
  parameters :: ToolParameterSchema
  extendedModel :: "StructuredModel option"

record ToolSchema =
  function_name :: string
  function_description :: string
  function_parameters :: ToolParameterSchema

record Toolkit =
  tools :: "(string \<times> ToolFunctionMetadata) list"
  equippedTools :: "string list"

definition new_Toolkit :: Toolkit where
  "new_Toolkit = \<lparr>tools = [], equippedTools = []\<rparr>"

definition extractFunctionMetadata :: "ExternalFunction \<Rightarrow> string \<Rightarrow> ToolFunctionMetadata" where
  "extractFunctionMetadata f nm =
     \<lparr>tool_name = nm,
      func = External f,
      description = (case fn_doc f of
                       Some d \<Rightarrow> if d \<noteq> [] then d else ''tool function: '' @ nm
                     | None \<Rightarrow> ''tool function: '' @ nm),
      parameters =
        \<lparr>schema_type = ''object'',
         properties = Some (foldl (\<lambda>ps p. if p \<noteq> [] \<and> p \<noteq> ''...args''
                                         then object_set p (JObj [(''type'', JStr ''string''),
                                                (''description'', JStr (''parameter '' @ p))]) ps
                                         else ps) [] (fn_source_params f)),
         required = Some []\<rparr>,
      extendedModel = None\<rparr>"

definition registerToolFunction :: "ExternalFunction \<Rightarrow> string option \<Rightarrow> Toolkit \<Rightarrow> Toolkit" where
  "registerToolFunction f nm T =
     (let functionName =
            (case nm of
               Some n \<Rightarrow> if n \<noteq> [] then n else if fn_name f \<noteq> [] then fn_name f else ''unknown_tool''
             | None \<Rightarrow> if fn_name f \<noteq> [] then fn_name f else ''unknown_tool'')
      in T\<lparr>tools := AList.update functionName (extractFunctionMetadata f functionName) (tools T),
           equippedTools := set_add functionName (equippedTools T)\<rparr>)"

definition registerToolWithMetadata ::
  "ToolFunction \<Rightarrow> string \<Rightarrow> string \<Rightarrow> ToolParameterSchema \<Rightarrow> Toolkit \<Rightarrow> Toolkit" where
  "registerToolWithMetadata f nm descr params T =
     T\<lparr>tools := AList.update nm
                  \<lparr>tool_name = nm, func = f, description = descr, parameters = params,
                   extendedModel = None\<rparr> (tools T),
       equippedTools := set_add nm (equippedTools T)\<rparr>"

definition getJsonSchemas :: "Toolkit \<Rightarrow> ToolSchema list" where
  "getJsonSchemas T =
     List.map_filter
       (\<lambda>toolName. case map_of (tools T) toolName of
                      None \<Rightarrow> None
                    | Some tool \<Rightarrow> Some \<lparr>function_name = tool_name tool,
                                         function_description = description tool,
                                         function_parameters = parameters tool\<rparr>)
       (equippedTools T)"

text \<open>
  \<^verbatim>\<open>resetEquippedTools\<close> throws before it changes anything; the model returns the error (if
  any) together with the toolkit as the call leaves it.
\<close>

definition resetEquippedTools :: "string list \<Rightarrow> Toolkit \<Rightarrow> string option \<times> Toolkit" where
  "resetEquippedTools toolNames T =
     (let invalidTools = filter (\<lambda>n. \<not> map_has n (tools T)) toolNames
      in if length invalidTools > 0
         then (Some (''Error: these tools do not exist: '' @ join '', '' invalidTools), T)
         else (None, T\<lparr>equippedTools := foldl (\<lambda>s n. set_add n s) [] toolNames\<rparr>))"

definition setExtendedModel :: "string \<Rightarrow> StructuredModel \<Rightarrow> Toolkit \<Rightarrow> Toolkit" where
  "setExtendedModel toolName m T =
     (case map_of (tools T) toolName of
        None \<Rightarrow> T
      | Some tool \<Rightarrow> T\<lparr>tools := AList.update toolName (tool\<lparr>extendedModel := Some m\<rparr>) (tools T)\<rparr>)"

definition removeToolFunction :: "string \<Rightarrow> Toolkit \<Rightarrow> bool \<times> Toolkit" where
  "removeToolFunction nm T =
     (if map_has nm (tools T)
      then (True, T\<lparr>tools := AList.delete nm (tools T),
                    equippedTools := set_delete nm (equippedTools T)\<rparr>)
      else (False, T))"

definition clear :: "Toolkit \<Rightarrow> Toolkit" where
  "clear T = T\<lparr>tools := [], equippedTools := []\<rparr>"

definition getEquippedTools :: "Toolkit \<Rightarrow> string list" where
  "getEquippedTools T = equippedTools T"

definition getAllTools :: "Toolkit \<Rightarrow> string list" where
  "getAllTools T = map fst (tools T)"

definition validateInput :: "jsval jsobject \<Rightarrow> ToolParameterSchema \<Rightarrow> string + jsval jsobject" where
  "validateInput inp schema =
     (case required schema of
        None \<Rightarrow> Inr inp
      | Some rs \<Rightarrow>
          (case find (\<lambda>r. \<not> js_in r inp) rs of
             Some r \<Rightarrow> Inl (''Error: missing required parameter: '' @ r)
           | None \<Rightarrow> Inr inp))"

fun build_args :: "string list \<Rightarrow> jsval jsobject \<Rightarrow> ToolParameterSchema \<Rightarrow> string + jsval list" where
  "build_args [] inp ps = Inr []"
| "build_args (paramName # rest) inp ps =
     (if js_in paramName inp
      then (case build_args rest inp ps of
              Inl e \<Rightarrow> Inl e
            | Inr args \<Rightarrow> Inr (js_get inp paramName # args))
      else if (case required ps of Some rs \<Rightarrow> paramName \<in> set rs | None \<Rightarrow> False)
      then Inl (''Error: missing required parameter: '' @ paramName)
      else (case build_args rest inp ps of
              Inl e \<Rightarrow> Inl e
            | Inr args \<Rightarrow> Inr (JUndefined # args)))"

text \<open>
  What \<^verbatim>\<open>callToolFunction\<close> hands back: a generator that has not run yet. An external
  generator is given by what it will yield; the two agent-bound tools by their arguments.
\<close>

datatype Generator =
    Gen_Yields "ToolResponse list" "string option"
  | Gen_GenerateResponse "jsval list"
  | Gen_ResetTools "jsval list"

definition createErrorGenerator :: "string \<Rightarrow> Generator" where
  "createErrorGenerator errorMessage = Gen_Yields [createErrorResponse errorMessage] None"

definition wrapInAsyncGenerator :: "ToolResponse \<Rightarrow> Generator" where
  "wrapInAsyncGenerator r = Gen_Yields [r] None"

definition callToolFunctionWithArgs ::
  "ToolFunction \<Rightarrow> jsval jsobject \<Rightarrow> ToolParameterSchema \<Rightarrow> string + Generator" where
  "callToolFunctionWithArgs f inp ps =
     (let paramNames = object_keys (case properties ps of Some p \<Rightarrow> p | None \<Rightarrow> [])
      in case build_args paramNames inp ps of
           Inl e \<Rightarrow> Inl e
         | Inr args \<Rightarrow>
             (case f of
                GenerateResponse \<Rightarrow> Inr (Gen_GenerateResponse args)
              | CreateResetToolsWrapper \<Rightarrow> Inr (Gen_ResetTools args)
              | External ef \<Rightarrow>
                  (case fn_call ef args of
                     ToolThrows e \<Rightarrow> Inl e
                   | ToolReturns r \<Rightarrow> Inr (wrapInAsyncGenerator r)
                   | ToolYields rs err \<Rightarrow> Inr (Gen_Yields rs err))))"

definition callToolFunction :: "Toolkit \<Rightarrow> ToolUseBlock \<Rightarrow> Generator" where
  "callToolFunction T toolCall =
     (if tu_name toolCall \<notin> set (equippedTools T)
      then createErrorGenerator (''tool '' @ tu_name toolCall @ '' is not equipped or does not exist'')
      else case map_of (tools T) (tu_name toolCall) of
             None \<Rightarrow> createErrorGenerator (''tool '' @ tu_name toolCall @ '' not found'')
           | Some tool \<Rightarrow>
               (case validateInput (tu_input toolCall) (parameters tool) of
                  Inl e \<Rightarrow> createErrorGenerator (''tool function failed: '' @ e)
                | Inr validatedInput \<Rightarrow>
                    (case callToolFunctionWithArgs (func tool) validatedInput (parameters tool) of
                       Inl e \<Rightarrow> createErrorGenerator (''tool function failed: '' @ e)
                     | Inr g \<Rightarrow> g)))"

definition equipped_registered :: "Toolkit \<Rightarrow> bool" where
  "equipped_registered T \<longleftrightarrow> set (equippedTools T) \<subseteq> fst ` set (tools T)"


section \<open>Hook functions and hook chains (agent/AgentBase.ts, agent/ReActAgentBase.ts)\<close>

text \<open>
  A \<^verbatim>\<open>HookFunction (agent, kwargs, output?)\<close> is one JavaScript function. The dispatchers call
  it with two arguments before a step and with three arguments after it; the model keeps
  what it does at each of the two call shapes. A hook either throws or returns; \<open>None\<close> is a
  \<^verbatim>\<open>null\<close> or \<^verbatim>\<open>undefined\<close> result. Hooks act on the agent only through what they return.
  \<open>'k\<close> is the type of the argument bag, \<open>'o\<close> the type of the step's output.

  Every dispatcher walks the class-level entries and then the instance-level entries. The
  model of a walk returns, besides the value it ends with, the list of the calls it made:
  scope, hook name and the value handed to the hook.
\<close>

datatype 'a hook_result = HookThrows string | HookReturns 'a

record ('k, 'o) HookFunction =
  as_pre :: "'k \<Rightarrow> 'k option hook_result"
  as_post :: "'k \<Rightarrow> 'o \<Rightarrow> 'o option hook_result"

datatype scope = ClassLevel | InstanceLevel

type_synonym 'v hook_calls = "(scope \<times> string \<times> 'v) list"

fun run_pre_hooks ::
  "scope \<Rightarrow> (string \<times> ('k, 'o) HookFunction) list \<Rightarrow> 'k \<Rightarrow> 'k hook_calls \<times> 'k" where
  "run_pre_hooks sc [] currentArgs = ([], currentArgs)"
| "run_pre_hooks sc ((hookName, hook) # rest) currentArgs =
     (let next = (case as_pre hook currentArgs of
                    HookReturns (Some result) \<Rightarrow> result
                  | HookReturns None \<Rightarrow> currentArgs
                  | HookThrows e \<Rightarrow> currentArgs);
          (calls, final) = run_pre_hooks sc rest next
      in ((sc, hookName, currentArgs) # calls, final))"

fun run_post_hooks ::
  "scope \<Rightarrow> (string \<times> ('k, 'o) HookFunction) list \<Rightarrow> 'k \<Rightarrow> 'o \<Rightarrow> 'o hook_calls \<times> 'o" where
  "run_post_hooks sc [] args currentOutput = ([], currentOutput)"
| "run_post_hooks sc ((hookName, hook) # rest) args currentOutput =
     (let next = (case as_post hook args currentOutput of
                    HookReturns (Some result) \<Rightarrow> result
                  | HookReturns None \<Rightarrow> currentOutput
                  | HookThrows e \<Rightarrow> currentOutput);
          (calls, final) = run_post_hooks sc rest args next
      in ((sc, hookName, currentOutput) # calls, final))"

subsection \<open>AgentBase: hook storage in plain objects\<close>

datatype AgentHookTypes =
    pre_reply | post_reply | pre_print | post_print | pre_observe | post_observe
  | pre_reasoning | post_reasoning | pre_acting | post_acting

definition AgentBase_supportedHookTypes :: "AgentHookTypes list" where
  "AgentBase_supportedHookTypes =
     [pre_reply, post_reply, pre_print, post_print, pre_observe, post_observe]"

definition ReActAgentBase_supportedHookTypes :: "AgentHookTypes list" where
  "ReActAgentBase_supportedHookTypes =
     [pre_reply, post_reply, pre_print, post_print, pre_observe, post_observe,
      pre_reasoning, post_reasoning, pre_acting, post_acting]"

type_synonym ('k, 'o) HookStorage = "('k, 'o) HookFunction jsobject"

type_synonym ('k, 'o) InstanceHooks = "(AgentHookTypes \<times> ('k, 'o) HookStorage) list"

type_synonym ('k, 'o) ClassHooks = "(string \<times> (AgentHookTypes \<times> ('k, 'o) HookStorage) list) list"

definition new_instanceHooks :: "('k, 'o) InstanceHooks" where
  "new_instanceHooks = map (\<lambda>hookType. (hookType, [])) AgentBase_supportedHookTypes"

definition registerInstanceHook ::
  "AgentHookTypes \<Rightarrow> string \<Rightarrow> ('k, 'o) HookFunction \<Rightarrow> ('k, 'o) InstanceHooks
     \<Rightarrow> string option \<times> ('k, 'o) InstanceHooks" where
  "registerInstanceHook hookType hookName hook ih =
     (if hookType \<notin> set AgentBase_supportedHookTypes
      then (Some ''Error: unsupported hook type'', ih)
      else case map_of ih hookType of
             None \<Rightarrow> (Some ''TypeError: cannot set properties of undefined'', ih)
           | Some hooks \<Rightarrow> (None, AList.update hookType (object_set hookName hook hooks) ih))"

definition registerClassHook ::
  "AgentHookTypes list \<Rightarrow> string \<Rightarrow> AgentHookTypes \<Rightarrow> string \<Rightarrow> ('k, 'o) HookFunction
     \<Rightarrow> ('k, 'o) ClassHooks \<Rightarrow> string option \<times> ('k, 'o) ClassHooks" where
  "registerClassHook supportedHookTypes cls hookType hookName hook ch =
     (if hookType \<notin> set supportedHookTypes
      then (Some ''Error: unsupported hook type'', ch)
      else let ch1 = (if map_has cls ch then ch else AList.update cls [] ch);
               classHookMap = (case map_of ch1 cls of Some m \<Rightarrow> m | None \<Rightarrow> []);
               classHookMap1 = (if map_has hookType classHookMap then classHookMap
                                else AList.update hookType [] classHookMap);
               hooks = (case map_of classHookMap1 hookType of Some h \<Rightarrow> h | None \<Rightarrow> [])
           in (None, AList.update cls
                       (AList.update hookType (object_set hookName hook hooks) classHookMap1) ch1))"

definition class_hook_entries ::
  "('k, 'o) ClassHooks \<Rightarrow> string \<Rightarrow> AgentHookTypes \<Rightarrow> (string \<times> ('k, 'o) HookFunction) list" where
  "class_hook_entries ch cls hookType =
     (case map_of ch cls of
        None \<Rightarrow> []
      | Some classHookMap \<Rightarrow>
          (case map_of classHookMap hookType of
             None \<Rightarrow> []
           | Some classHooks \<Rightarrow> object_entries classHooks))"

definition instance_hook_entries ::
  "('k, 'o) InstanceHooks \<Rightarrow> AgentHookTypes \<Rightarrow> (string \<times> ('k, 'o) HookFunction) list" where
  "instance_hook_entries ih hookType =
     (case map_of ih hookType of
        None \<Rightarrow> []
      | Some instanceHooks \<Rightarrow> object_entries instanceHooks)"

definition applyPreHooks ::
  "('k, 'o) ClassHooks \<Rightarrow> string \<Rightarrow> ('k, 'o) InstanceHooks \<Rightarrow> AgentHookTypes \<Rightarrow> 'k
     \<Rightarrow> 'k hook_calls \<times> 'k" where
  "applyPreHooks ch cls ih hookType args =
     (let (calls1, args1) = run_pre_hooks ClassLevel (class_hook_entries ch cls hookType) args;
          (calls2, args2) = run_pre_hooks InstanceLevel (instance_hook_entries ih hookType) args1
      in (calls1 @ calls2, args2))"

definition applyPostHooks ::
  "('k, 'o) ClassHooks \<Rightarrow> string \<Rightarrow> ('k, 'o) InstanceHooks \<Rightarrow> AgentHookTypes \<Rightarrow> 'k \<Rightarrow> 'o
     \<Rightarrow> 'o hook_calls \<times> 'o" where
  "applyPostHooks ch cls ih hookType args out =
     (let (calls1, out1) = run_post_hooks ClassLevel (class_hook_entries ch cls hookType) args out;
          (calls2, out2) = run_post_hooks InstanceLevel (instance_hook_entries ih hookType) args out1
      in (calls1 @ calls2, out2))"

subsection \<open>ReActAgentBase: reasoning and acting hooks in Maps\<close>

text \<open>
  The argument bag of a reasoning or acting hook is \<^verbatim>\<open>{ args }\<close>, the argument list of the
  wrapped call: empty for \<^verbatim>\<open>reasoning\<close>, the tool call for \<^verbatim>\<open>acting\<close>. The output of
  \<^verbatim>\<open>acting\<close> is a message or \<^verbatim>\<open>null\<close>; for a post-acting hook the result \<open>None\<close> is
  \<^verbatim>\<open>undefined\<close> and \<open>Some None\<close> is \<^verbatim>\<open>null\<close>, which the dispatcher takes over.
  One Map per step serves the dispatch before the step and the dispatch after it.
\<close>

type_synonym ReasoningHook = "(jsval list, Message) HookFunction"

type_synonym ActingHook = "(ToolUseBlock list, Message option) HookFunction"

record Statics =
  classReasoningHooks :: "(string \<times> (string \<times> ReasoningHook) list) list"
  classActingHooks :: "(string \<times> (string \<times> ActingHook) list) list"

definition registerClassReasoningHook :: "string \<Rightarrow> string \<Rightarrow> ReasoningHook \<Rightarrow> Statics \<Rightarrow> Statics" where
  "registerClassReasoningHook cls hookName hook C =
     (let m = (case map_of (classReasoningHooks C) cls of Some h \<Rightarrow> h | None \<Rightarrow> [])
      in C\<lparr>classReasoningHooks := AList.update cls (AList.update hookName hook m) (classReasoningHooks C)\<rparr>)"

definition registerClassActingHook :: "string \<Rightarrow> string \<Rightarrow> ActingHook \<Rightarrow> Statics \<Rightarrow> Statics" where
  "registerClassActingHook cls hookName hook C =
     (let m = (case map_of (classActingHooks C) cls of Some h \<Rightarrow> h | None \<Rightarrow> [])
      in C\<lparr>classActingHooks := AList.update cls (AList.update hookName hook m) (classActingHooks C)\<rparr>)"


section \<open>The ReAct agent (agent/ReActAgent.ts)\<close>

text \<open>
  Collaborators. The chat model is a function of the formatted messages and the tool schemas;
  its first argument is the number of calls made before, so that a model may answer
  differently from call to call. It throws, returns one complete response, or returns an
  asynchronous generator: the finite list of chunks it yields and, possibly, the error it
  raises after them (\<^verbatim>\<open>StreamChunk.content\<close> is a \<^verbatim>\<open>ContentBlock[]\<close>). The formatter is a
  function. The memory is the \<^verbatim>\<open>InMemoryMemory\<close> array. \<^verbatim>\<open>JSON.stringify\<close> and the uuid
  generator are parameters (\<open>Runtime\<close>). \<^verbatim>\<open>print\<close> hands the message to the presentation sink;
  the sink is the list \<open>printed\<close>. The print hooks, among them the one the constructor
  registers, work on a deep copy of the message and are not part of the model.

  Two fields observe the run and are read by no operation: \<open>events\<close>, the calls of
  \<^verbatim>\<open>model.call\<close> and of \<^verbatim>\<open>toolkit.callToolFunction\<close> in the order they are made, and
  \<open>recorded\<close>, what was handed to \<^verbatim>\<open>longTermMemory.record\<close>.

  The asynchronous calls of one iteration are taken one after the other, in request order.
\<close>

type_synonym Formatted = "string + Message list"

datatype ModelResult =
    ModelThrows string
  | Complete "ContentBlock list"
  | Streamed "ContentBlock list list" "string option"

type_synonym IChatModel = "nat \<Rightarrow> Formatted \<Rightarrow> ToolSchema list option \<Rightarrow> ModelResult"

datatype Event =
    ModelCall Formatted "ToolSchema list option"
  | ToolCall ToolUseBlock

record Runtime =
  JSON_stringify :: "ContentBlock \<Rightarrow> string"
  generateShortUuid :: "nat \<Rightarrow> string"

record ILongTermMemory =
  retrieve :: "Message list option \<Rightarrow> string"
  recordToMemory :: ExternalFunction
  retrieveFromMemory :: ExternalFunction

record AgentConfig =
  cfg_name :: string
  sys_prompt :: string
  cfg_model :: IChatModel
  cfg_formatter :: "Message list \<Rightarrow> Formatted"
  cfg_toolkit :: "Toolkit option"
  cfg_memory :: "Message list option"
  long_term_memory :: "ILongTermMemory option"
  long_term_memory_mode :: "string option"
  enable_meta_tool :: "bool option"
  parallel_tool_calls :: "bool option"
  max_iters :: "int option"

record Agent =
  agent_name :: string
  className :: string
  sysPrompt :: string
  maxIters :: int
  model :: IChatModel
  formatter :: "Message list \<Rightarrow> Formatted"
  toolkit :: Toolkit
  memory :: "Message list"
  longTermMemory :: "ILongTermMemory option"
  longTermMemoryMode :: string
  enableMetaTool :: bool
  parallelToolCalls :: bool
  staticControl :: bool
  agentControl :: bool
  requiredStructuredModel :: "StructuredModel option"
  instanceReasoningHooks :: "(string \<times> ReasoningHook) list"
  instanceActingHooks :: "(string \<times> ActingHook) list"
  printed :: "(Message \<times> bool) list"
  events :: "Event list"
  recorded :: "Message list list"
  uuids_drawn :: nat

definition finishFunctionName :: string where
  "finishFunctionName = ''generate_response''"

definition registerInstanceReasoningHook :: "string \<Rightarrow> ReasoningHook \<Rightarrow> Agent \<Rightarrow> Agent" where
  "registerInstanceReasoningHook hookName hook A =
     A\<lparr>instanceReasoningHooks := AList.update hookName hook (instanceReasoningHooks A)\<rparr>"

definition registerInstanceActingHook :: "string \<Rightarrow> ActingHook \<Rightarrow> Agent \<Rightarrow> Agent" where
  "registerInstanceActingHook hookName hook A =
     A\<lparr>instanceActingHooks := AList.update hookName hook (instanceActingHooks A)\<rparr>"

definition class_entries :: "(string \<times> (string \<times> 'h) list) list \<Rightarrow> string \<Rightarrow> (string \<times> 'h) list" where
  "class_entries registry cls = (case map_of registry cls of None \<Rightarrow> [] | Some classHooks \<Rightarrow> classHooks)"

definition applyPreReasoningHooks :: "Statics \<Rightarrow> Agent \<Rightarrow> jsval list \<Rightarrow> jsval list hook_calls \<times> jsval list" where
  "applyPreReasoningHooks C A args =
     (let (calls1, args1) =
            run_pre_hooks ClassLevel (class_entries (classReasoningHooks C) (className A)) args;
          (calls2, args2) = run_pre_hooks InstanceLevel (instanceReasoningHooks A) args1
      in (calls1 @ calls2, args2))"

definition applyPostReasoningHooks ::
  "Statics \<Rightarrow> Agent \<Rightarrow> jsval list \<Rightarrow> Message \<Rightarrow> Message hook_calls \<times> Message" where
  "applyPostReasoningHooks C A args out =
     (let (calls1, out1) =
            run_post_hooks ClassLevel (class_entries (classReasoningHooks C) (className A)) args out;
          (calls2, out2) = run_post_hooks InstanceLevel (instanceReasoningHooks A) args out1
      in (calls1 @ calls2, out2))"

definition applyPreActingHooks ::
  "Statics \<Rightarrow> Agent \<Rightarrow> ToolUseBlock list \<Rightarrow> ToolUseBlock list hook_calls \<times> ToolUseBlock list" where
  "applyPreActingHooks C A args =
     (let (calls1, args1) =
            run_pre_hooks ClassLevel (class_entries (classActingHooks C) (className A)) args;
          (calls2, args2) = run_pre_hooks InstanceLevel (instanceActingHooks A) args1
      in (calls1 @ calls2, args2))"

definition applyPostActingHooks ::
  "Statics \<Rightarrow> Agent \<Rightarrow> ToolUseBlock list \<Rightarrow> Message option
     \<Rightarrow> Message option hook_calls \<times> Message option" where
  "applyPostActingHooks C A args out =
     (let (calls1, out1) =
            run_post_hooks ClassLevel (class_entries (classActingHooks C) (className A)) args out;
          (calls2, out2) = run_post_hooks InstanceLevel (instanceActingHooks A) args out1
      in (calls1 @ calls2, out2))"

subsection \<open>Construction\<close>

definition generate_response_schema :: ToolParameterSchema where
  "generate_response_schema =
     \<lparr>schema_type = ''object'',
      properties = Some [(''response'', JObj [(''type'', JStr ''string''),
                                              (''description'', JStr ''your reply to the user'')])],
      required = Some [''response'']\<rparr>"

definition reset_equipped_tools_schema :: ToolParameterSchema where
  "reset_equipped_tools_schema =
     \<lparr>schema_type = ''object'',
      properties = Some [(''toolNames'', JObj [(''type'', JStr ''array''),
                                               (''items'', JObj [(''type'', JStr ''string'')]),
                                               (''description'', JStr ''names of the tools to equip'')])],
      required = Some [''toolNames'']\<rparr>"

definition setupToolkit :: "bool \<Rightarrow> ILongTermMemory option \<Rightarrow> bool \<Rightarrow> Toolkit \<Rightarrow> Toolkit" where
  "setupToolkit agentCtl ltm metaTool T =
     (let T1 = registerToolWithMetadata GenerateResponse finishFunctionName
                 ''generate a reply; only the response parameter is visible to others''
                 generate_response_schema T;
          T2 = (case ltm of
                  Some l \<Rightarrow> if agentCtl
                            then registerToolFunction (retrieveFromMemory l) (Some ''retrieve_from_memory'')
                                   (registerToolFunction (recordToMemory l) (Some ''record_to_memory'') T1)
                            else T1
                | None \<Rightarrow> T1)
      in if metaTool
         then registerToolWithMetadata CreateResetToolsWrapper ''reset_equipped_tools''
                ''reset the list of equipped tools'' reset_equipped_tools_schema T2
         else T2)"

definition constructor :: "AgentConfig \<Rightarrow> string + Agent" where
  "constructor config =
     (let mode = (case long_term_memory_mode config of
                    Some m \<Rightarrow> if m \<noteq> [] then m else ''both''
                  | None \<Rightarrow> ''both'')
      in if mode \<notin> set [''agent_control'', ''static_control'', ''both'']
         then Inl ''Error: invalid long-term memory mode''
         else
           let hasLtm = (long_term_memory config \<noteq> None);
               staticCtl = (hasLtm \<and> mode \<in> set [''static_control'', ''both'']);
               agentCtl = (hasLtm \<and> mode \<in> set [''agent_control'', ''both'']);
               metaTool = (case enable_meta_tool config of Some b \<Rightarrow> b | None \<Rightarrow> False)
           in Inr \<lparr>agent_name = cfg_name config,
                   className = ''ReActAgent'',
                   sysPrompt = sys_prompt config,
                   maxIters = (case max_iters config of
                                 Some n \<Rightarrow> if n \<noteq> 0 then n else 10
                               | None \<Rightarrow> 10),
                   model = cfg_model config,
                   formatter = cfg_formatter config,
                   toolkit = setupToolkit agentCtl (long_term_memory config) metaTool
                               (case cfg_toolkit config of Some T \<Rightarrow> T | None \<Rightarrow> new_Toolkit),
                   memory = (case cfg_memory config of Some ms \<Rightarrow> ms | None \<Rightarrow> []),
                   longTermMemory = long_term_memory config,
                   longTermMemoryMode = mode,
                   enableMetaTool = metaTool,
                   parallelToolCalls = (case parallel_tool_calls config of Some b \<Rightarrow> b | None \<Rightarrow> False),
                   staticControl = staticCtl,
                   agentControl = agentCtl,
                   requiredStructuredModel = None,
                   instanceReasoningHooks = [],
                   instanceActingHooks = [],
                   printed = [],
                   events = [],
                   recorded = [],
                   uuids_drawn = 0\<rparr>)"

subsection \<open>Collaborator calls\<close>

definition print :: "Message \<Rightarrow> bool \<Rightarrow> Agent \<Rightarrow> Agent" where
  "print msg isLast A = A\<lparr>printed := printed A @ [(msg, isLast)]\<rparr>"

definition memory_add :: "Message list \<Rightarrow> Agent \<Rightarrow> Agent" where
  "memory_add msgs A = A\<lparr>memory := memory A @ msgs\<rparr>"

fun is_model_call :: "Event \<Rightarrow> bool" where
  "is_model_call (ModelCall fm ts) = True"
| "is_model_call (ToolCall tc) = False"

definition model_call :: "Formatted \<Rightarrow> ToolSchema list option \<Rightarrow> Agent \<Rightarrow> ModelResult \<times> Agent" where
  "model_call fm ts A =
     (model A (length (filter is_model_call (events A))) fm ts,
      A\<lparr>events := events A @ [ModelCall fm ts]\<rparr>)"

definition toolkit_callToolFunction :: "ToolUseBlock \<Rightarrow> Agent \<Rightarrow> Generator \<times> Agent" where
  "toolkit_callToolFunction toolCall A =
     (callToolFunction (toolkit A) toolCall, A\<lparr>events := events A @ [ToolCall toolCall]\<rparr>)"

subsection \<open>Reasoning\<close>

fun reasoning_stream ::
  "ContentBlock list list \<Rightarrow> ContentBlock list \<Rightarrow> Message \<Rightarrow> Agent \<Rightarrow> Message \<times> Agent" where
  "reasoning_stream [] accumulatedContent msg A = (msg, A)"
| "reasoning_stream (chunk # chunks) accumulatedContent msg A =
     (let accumulatedContent1 = accumulatedContent @ chunk;
          msg1 = setContent (Blocks accumulatedContent1) msg
      in reasoning_stream chunks accumulatedContent1 msg1 (print msg1 False A))"

definition reasoning_response :: "ModelResult \<Rightarrow> Agent \<Rightarrow> (string + Message) \<times> Agent" where
  "reasoning_response response A =
     (case response of
        ModelThrows e \<Rightarrow> (Inl e, A)
      | Streamed chunks err \<Rightarrow>
          (let (msg, A1) = reasoning_stream chunks [] (new_Message (agent_name A) (Blocks []) Assistant) A
           in case err of
                Some e \<Rightarrow> (Inl e, A1)
              | None \<Rightarrow> (Inr msg, print msg True A1))
      | Complete c \<Rightarrow>
          (let msg = new_Message (agent_name A) (Blocks c) Assistant
           in (Inr msg, print msg True A)))"

text \<open>
  The first half of \<^verbatim>\<open>reasoning\<close>: the model is called and its response, complete or
  streamed, becomes one assistant message.
\<close>

definition model_output :: "Agent \<Rightarrow> (string + Message) \<times> Agent" where
  "model_output A =
     (let messages = createSystemMessage (sysPrompt A) # memory A;
          formattedMessages = formatter A messages;
          (response, A1) = model_call formattedMessages (Some (getJsonSchemas (toolkit A))) A
      in reasoning_response response A1)"

definition reasoning :: "Runtime \<Rightarrow> Agent \<Rightarrow> (string + Message) \<times> Agent" where
  "reasoning R A =
     (case model_output A of
        (Inl e, A2) \<Rightarrow> (Inl e, A2)
      | (Inr msg, A2) \<Rightarrow>
          if \<not> hasContentBlocks msg ''tool_use''
          then (let textContent = getTextContent msg;
                    msg1 = setContent
                             (Blocks [createToolUseBlock finishFunctionName
                                        [(''response'', JStr textContent)]
                                        (generateShortUuid R (uuids_drawn A2))]) msg
                in (Inr msg1, memory_add [msg1] (A2\<lparr>uuids_drawn := Suc (uuids_drawn A2)\<rparr>)))
          else (Inr msg, memory_add [msg] A2))"

subsection \<open>The two tools of the agent\<close>

definition content_of_arg :: "jsval \<Rightarrow> MessageContent" where
  "content_of_arg v = (case v of JStr s \<Rightarrow> PlainText s | _ \<Rightarrow> OtherContent v)"

definition generateResponse :: "Agent \<Rightarrow> jsval list \<Rightarrow> ToolResponse list" where
  "generateResponse A args =
     (let response = (case args of [] \<Rightarrow> JUndefined | r # _ \<Rightarrow> r);
          kwargs = tl args;
          responseMsg = new_Message (agent_name A) (content_of_arg response) Assistant
      in case requiredStructuredModel A of
           None \<Rightarrow>
             [new_ToolResponse ''reply generated successfully''
                \<lparr>success = True, response_msg = Some responseMsg, others = []\<rparr> True]
         | Some parse \<Rightarrow>
             (let k0 = (case kwargs of [] \<Rightarrow> JUndefined | k # _ \<Rightarrow> k)
              in case parse (if truthy k0 then k0 else JObj []) of
                   Inl e \<Rightarrow>
                     [new_ToolResponse (''parameter validation error: '' @ e)
                        \<lparr>success = False, response_msg = None, others = []\<rparr> True]
                 | Inr structuredData \<Rightarrow>
                     [new_ToolResponse ''reply generated successfully''
                        \<lparr>success = True,
                         response_msg = Some (responseMsg\<lparr>metadata := structuredData\<rparr>),
                         others = []\<rparr> True]))"

fun string_array :: "jsval list \<Rightarrow> string list option" where
  "string_array [] = Some []"
| "string_array (JStr s # vs) = (case string_array vs of Some ss \<Rightarrow> Some (s # ss) | None \<Rightarrow> None)"
| "string_array (v # vs) = None"

definition createResetToolsWrapper :: "jsval list \<Rightarrow> Agent \<Rightarrow> ToolResponse list \<times> Agent" where
  "createResetToolsWrapper args A =
     (let failed = (\<lambda>e. [new_ToolResponse (''failed to reset the tool list: '' @ e)
                            \<lparr>success = False, response_msg = None, others = [(''error'', JStr e)]\<rparr> True])
      in case args of
           JArr vs # _ \<Rightarrow>
             (case string_array vs of
                None \<Rightarrow> (failed ''Error: these tools do not exist'', A)
              | Some toolNames \<Rightarrow>
                  (case resetEquippedTools toolNames (toolkit A) of
                     (Some e, T) \<Rightarrow> (failed e, A\<lparr>toolkit := T\<rparr>)
                   | (None, T) \<Rightarrow>
                       ([new_ToolResponse
                           (''reset the tool list; equipped tools now: '' @ join '', '' toolNames)
                           \<lparr>success = True, response_msg = None, others = [(''toolNames'', JArr vs)]\<rparr>
                           True],
                        A\<lparr>toolkit := T\<rparr>)))
         | _ \<Rightarrow> (failed ''TypeError: toolNames.filter is not a function'', A))"

definition run_generator :: "Generator \<Rightarrow> Agent \<Rightarrow> (ToolResponse list \<times> string option) \<times> Agent" where
  "run_generator g A =
     (case g of
        Gen_Yields rs err \<Rightarrow> ((rs, err), A)
      | Gen_GenerateResponse args \<Rightarrow> ((generateResponse A args, None), A)
      | Gen_ResetTools args \<Rightarrow> (let (rs, A1) = createResetToolsWrapper args A in ((rs, None), A1)))"

subsection \<open>Acting\<close>

definition chunk_text :: "Runtime \<Rightarrow> ToolResponse \<Rightarrow> string" where
  "chunk_text R chunk =
     join ''\<newline>''
       (map (\<lambda>block. case text_of_block block of
                       Some t \<Rightarrow> if t \<noteq> [] then t else JSON_stringify R block
                     | None \<Rightarrow> JSON_stringify R block)
            (resp_content chunk))"

definition toolResultMsg :: "ToolUseBlock \<Rightarrow> jsval \<Rightarrow> Message" where
  "toolResultMsg toolCall out =
     createToolResultMessage [createToolResultBlock (tu_id toolCall) (tu_name toolCall) out]"

fun acting_chunks ::
  "Runtime \<Rightarrow> ToolUseBlock \<Rightarrow> ToolResponse list \<Rightarrow> jsval \<times> Message option \<Rightarrow> Agent
     \<Rightarrow> (jsval \<times> Message option) \<times> Agent" where
  "acting_chunks R toolCall [] st A = (st, A)"
| "acting_chunks R toolCall (chunk # chunks) (out, responseMsg) A =
     (let out1 = JStr (chunk_text R chunk);
          A1 = (if tu_name toolCall \<noteq> finishFunctionName \<or> \<not> success (resp_metadata chunk)
                then print (toolResultMsg toolCall out1) (is_last chunk) A
                else A);
          responseMsg1 = (if tu_name toolCall = finishFunctionName \<and> success (resp_metadata chunk)
                          then response_msg (resp_metadata chunk)
                          else responseMsg)
      in acting_chunks R toolCall chunks (out1, responseMsg1) A1)"

definition acting :: "Runtime \<Rightarrow> ToolUseBlock \<Rightarrow> Agent \<Rightarrow> Message option \<times> Agent" where
  "acting R toolCall A =
     (let (toolResponseGenerator, A1) = toolkit_callToolFunction toolCall A;
          ((chunks, err), A2) = run_generator toolResponseGenerator A1;
          ((out, responseMsg), A3) = acting_chunks R toolCall chunks (JArr [], None) A2;
          (out1, A4) = (case err of
                          None \<Rightarrow> (out, A3)
                        | Some e \<Rightarrow>
                            (let failure = JStr (''tool call failed: '' @ e)
                             in (failure, print (toolResultMsg toolCall failure) True A3)))
      in (responseMsg, memory_add [toolResultMsg toolCall out1] A4))"

subsection \<open>Summarizing\<close>

definition summarize_hint :: string where
  "summarize_hint =
     ''You failed to generate a reply within the maximum number of iterations. Now reply directly, summarizing the current situation.''"

fun summarizing_stream :: "ContentBlock list list \<Rightarrow> Message \<Rightarrow> Agent \<Rightarrow> Message \<times> Agent" where
  "summarizing_stream [] responseMsg A = (responseMsg, A)"
| "summarizing_stream (chunk # chunks) responseMsg A =
     (let responseMsg1 = setContent (Blocks chunk) responseMsg
      in summarizing_stream chunks responseMsg1 (print responseMsg1 False A))"

definition summarizing :: "Agent \<Rightarrow> (string + Message) \<times> Agent" where
  "summarizing A =
     (let hintMsg = createUserMessage summarize_hint ''user'';
          messages = createSystemMessage (sysPrompt A) # memory A @ [hintMsg];
          formattedMessages = formatter A messages;
          (response, A1) = model_call formattedMessages None A
      in case response of
           ModelThrows e \<Rightarrow> (Inl e, A1)
         | Streamed chunks err \<Rightarrow>
             (let (responseMsg, A2) =
                    summarizing_stream chunks (new_Message (agent_name A1) (Blocks []) Assistant) A1
              in case err of
                   Some e \<Rightarrow> (Inl e, A2)
                 | None \<Rightarrow> (Inr responseMsg, print responseMsg True A2))
         | Complete c \<Rightarrow>
             (let responseMsg = new_Message (agent_name A1) (Blocks c) Assistant
              in (Inr responseMsg, print responseMsg True A1)))"

subsection \<open>The steps with their hooks, and the loop\<close>

definition reasoningWithHooks :: "Runtime \<Rightarrow> Statics \<Rightarrow> Agent \<Rightarrow> (string + Message) \<times> Agent" where
  "reasoningWithHooks R C A =
     (let reasoningArgs = [];
          modifiedArgs = snd (applyPreReasoningHooks C A reasoningArgs)
      in case reasoning R A of
           (Inl e, A1) \<Rightarrow> (Inl e, A1)
         | (Inr result, A1) \<Rightarrow> (Inr (snd (applyPostReasoningHooks C A1 reasoningArgs result)), A1))"

definition actingWithHooks ::
  "Runtime \<Rightarrow> Statics \<Rightarrow> ToolUseBlock \<Rightarrow> Agent \<Rightarrow> (string + Message option) \<times> Agent" where
  "actingWithHooks R C toolCall A =
     (let actingArgs = [toolCall];
          modifiedArgs = snd (applyPreActingHooks C A actingArgs)
      in case modifiedArgs of
           [] \<Rightarrow> (Inl ''TypeError: cannot read properties of undefined'', A)
         | tc # _ \<Rightarrow>
             (let (result, A1) = acting R tc A
              in (Inr (snd (applyPostActingHooks C A1 actingArgs result)), A1)))"

fun start_all ::
  "Runtime \<Rightarrow> Statics \<Rightarrow> ToolUseBlock list \<Rightarrow> Agent \<Rightarrow> (string + Message option) list \<times> Agent" where
  "start_all R C [] A = ([], A)"
| "start_all R C (toolCall # rest) A =
     (let (r, A1) = actingWithHooks R C toolCall A;
          (rs, A2) = start_all R C rest A1
      in (r # rs, A2))"

fun promise_all :: "(string + 'a) list \<Rightarrow> string + 'a list" where
  "promise_all [] = Inr []"
| "promise_all (Inl e # ps) = Inl e"
| "promise_all (Inr v # ps) = (case promise_all ps of Inl e \<Rightarrow> Inl e | Inr vs \<Rightarrow> Inr (v # vs))"

fun await_each :: "(string + 'a) list \<Rightarrow> 'a list \<Rightarrow> string + 'a list" where
  "await_each [] actingResponses = Inr actingResponses"
| "await_each (Inl e # ps) actingResponses = Inl e"
| "await_each (Inr v # ps) actingResponses = await_each ps (actingResponses @ [v])"

fun first_reply :: "Message option list \<Rightarrow> Message option" where
  "first_reply [] = None"
| "first_reply (Some actingMsg # rest) = Some actingMsg"
| "first_reply (None # rest) = first_reply rest"

text \<open>
  One pass through the body of the \<^verbatim>\<open>for\<close> loop of \<^verbatim>\<open>reply\<close>, and how it ends.
\<close>

datatype step_outcome =
    Failed string
  | NoToolCalls
  | Replied Message
  | Continue

definition iteration :: "Runtime \<Rightarrow> Statics \<Rightarrow> Agent \<Rightarrow> step_outcome \<times> Agent" where
  "iteration R C A =
     (case reasoningWithHooks R C A of
        (Inl e, A1) \<Rightarrow> (Failed e, A1)
      | (Inr reasoningMsg, A1) \<Rightarrow>
          (let toolCalls = tool_uses (getContentBlocks reasoningMsg (Some ''tool_use''))
           in if length toolCalls = 0 then (NoToolCalls, A1)
              else
                let (actingPromises, A2) = start_all R C toolCalls A1;
                    settled = (if parallelToolCalls A2 then promise_all actingPromises
                               else await_each actingPromises [])
                in case settled of
                     Inl e \<Rightarrow> (Failed e, A2)
                   | Inr actingResponses \<Rightarrow>
                       (case first_reply actingResponses of
                          Some replyMsg \<Rightarrow> (Replied replyMsg, A2)
                        | None \<Rightarrow> (Continue, A2))))"

text \<open>
  The loop counter runs from 0 while it is below \<^verbatim>\<open>maxIters\<close>, which nothing changes during a
  call: the body is entered at most \<open>nat maxIters\<close> times. \<open>react_loop n\<close> is the loop with
  \<open>n\<close> passes left; it returns the reply found, if any.
\<close>

fun react_loop :: "Runtime \<Rightarrow> Statics \<Rightarrow> nat \<Rightarrow> Agent \<Rightarrow> (string + Message option) \<times> Agent" where
  "react_loop R C 0 A = (Inr None, A)"
| "react_loop R C (Suc n) A =
     (case iteration R C A of
        (Failed e, A1) \<Rightarrow> (Inl e, A1)
      | (NoToolCalls, A1) \<Rightarrow> (Inr None, A1)
      | (Replied replyMsg, A1) \<Rightarrow> (Inr (Some replyMsg), A1)
      | (Continue, A1) \<Rightarrow> react_loop R C n A1)"

text \<open>
  \<^verbatim>\<open>reply\<close> up to the loop: the input is logged, long-term memory is consulted in static
  control mode, and the structured-output contract of the call is installed.
\<close>

definition loop_start :: "Message list option \<Rightarrow> StructuredModel option \<Rightarrow> Agent \<Rightarrow> Agent" where
  "loop_start msg structuredModel A =
     (let A1 = memory_add (case msg of Some ms \<Rightarrow> ms | None \<Rightarrow> []) A;
          A2 = (if staticControl A1
                then (case longTermMemory A1 of
                        Some ltm \<Rightarrow>
                          (let retrievedInfo = retrieve ltm msg
                           in if retrievedInfo \<noteq> []
                              then memory_add
                                     [createUserMessage
                                        (''<long_term_memory>The following comes from long-term memory and may be useful:\<newline>''
                                         @ retrievedInfo @ ''</long_term_memory>'')
                                        ''long_term_memory''] A1
                              else A1)
                      | None \<Rightarrow> A1)
                else A1)
      in A2\<lparr>requiredStructuredModel := structuredModel,
             toolkit := (case structuredModel of
                           Some m \<Rightarrow> setExtendedModel finishFunctionName m (toolkit A2)
                         | None \<Rightarrow> toolkit A2)\<rparr>)"

definition reply ::
  "Runtime \<Rightarrow> Statics \<Rightarrow> Message list option \<Rightarrow> StructuredModel option \<Rightarrow> Agent
     \<Rightarrow> (string + Message) \<times> Agent" where
  "reply R C msg structuredModel A =
     (let A3 = loop_start msg structuredModel A
      in case react_loop R C (nat (maxIters A3)) A3 of
           (Inl e, A4) \<Rightarrow> (Inl e, A4)
         | (Inr found, A4) \<Rightarrow>
             (case (case found of Some m \<Rightarrow> (Inr m, A4) | None \<Rightarrow> summarizing A4) of
                (Inl e, A5) \<Rightarrow> (Inl e, A5)
              | (Inr replyMsg, A5) \<Rightarrow>
                  (let A6 = (if staticControl A5
                             then A5\<lparr>recorded := recorded A5 @
                                       [(case msg of Some ms \<Rightarrow> ms | None \<Rightarrow> []) @ memory A5 @ [replyMsg]]\<rparr>
                             else A5)
                   in (Inr replyMsg, memory_add [replyMsg] A6))))"

text \<open>
  What the statements below count: the passes of the loop that ended with ``go on'', the
  reasoning calls of the model (those that carry tool schemas) and the tool invocations.
\<close>

fun continues :: "Runtime \<Rightarrow> Statics \<Rightarrow> nat \<Rightarrow> Agent \<Rightarrow> bool" where
  "continues R C 0 A = True"
| "continues R C (Suc n) A =
     (case iteration R C A of
        (Continue, A1) \<Rightarrow> continues R C n A1
      | (other, A1) \<Rightarrow> False)"

fun after_iterations :: "Runtime \<Rightarrow> Statics \<Rightarrow> nat \<Rightarrow> Agent \<Rightarrow> Agent" where
  "after_iterations R C 0 A = A"
| "after_iterations R C (Suc n) A = after_iterations R C n (snd (iteration R C A))"

fun is_reasoning_call :: "Event \<Rightarrow> bool" where
  "is_reasoning_call (ModelCall fm (Some ts)) = True"
| "is_reasoning_call (ModelCall fm None) = False"
| "is_reasoning_call (ToolCall tc) = False"


definition reasoning_calls :: "Agent \<Rightarrow> nat" where
  "reasoning_calls A = length (filter is_reasoning_call (events A))"


text \<open>
  What a call of \<^verbatim>\<open>reply\<close> never changes once the loop has started, and the tool calls that a
  response of the model asks for (none when the model fails).
\<close>

definition settings ::
  "Agent \<Rightarrow> (string \<times> string \<times> string \<times> int) \<times> IChatModel \<times> (Message list \<Rightarrow> Formatted)
     \<times> (bool \<times> bool \<times> bool \<times> bool) \<times> StructuredModel option
     \<times> (string \<times> ReasoningHook) list \<times> (string \<times> ActingHook) list" where
  "settings A =
     ((agent_name A, className A, sysPrompt A, maxIters A), model A, formatter A,
      (enableMetaTool A, parallelToolCalls A, staticControl A, agentControl A),
      requiredStructuredModel A, instanceReasoningHooks A, instanceActingHooks A)"

definition without_hooks :: "Statics \<Rightarrow> Agent \<Rightarrow> bool" where
  "without_hooks C A \<longleftrightarrow>
     class_entries (classReasoningHooks C) (className A) = [] \<and> instanceReasoningHooks A = [] \<and>
     class_entries (classActingHooks C) (className A) = [] \<and> instanceActingHooks A = []"




section \<open>Concrete collaborators used in the examples\<close>

definition R0 :: Runtime where
  "R0 = \<lparr>JSON_stringify = (\<lambda>b. ''{}''), generateShortUuid = (\<lambda>n. ''uuid'')\<rparr>"

definition C0 :: Statics where
  "C0 = \<lparr>classReasoningHooks = [], classActingHooks = []\<rparr>"

definition echo :: ExternalFunction where
  "echo = \<lparr>fn_name = ''echo'', fn_doc = None, fn_source_params = [''message''],
           fn_call = (\<lambda>args. ToolYields
                        [new_ToolResponse (case args of JStr s # _ \<Rightarrow> ''echo: '' @ s | _ \<Rightarrow> ''echo'')
                           \<lparr>success = True, response_msg = None, others = []\<rparr> True] None)\<rparr>"

definition echo_schema :: ToolParameterSchema where
  "echo_schema = \<lparr>schema_type = ''object'',
                  properties = Some [(''message'', JObj [(''type'', JStr ''string'')])],
                  required = Some [''message'']\<rparr>"

definition echo_toolkit :: Toolkit where
  "echo_toolkit =
     registerToolWithMetadata (External echo) ''echo'' ''repeat the message'' echo_schema new_Toolkit"

definition echo_call :: ToolUseBlock where
  "echo_call = \<lparr>tu_id = ''call-1'', tu_name = ''echo'', tu_input = [(''message'', JStr ''hi'')]\<rparr>"

definition echo_model :: IChatModel where
  "echo_model n fm ts = (case ts of Some schemas \<Rightarrow> Complete [ToolUse echo_call]
                                  | None \<Rightarrow> Complete [TextBlock ''summary''])"

definition config0 :: "IChatModel \<Rightarrow> int option \<Rightarrow> AgentConfig" where
  "config0 m k = \<lparr>cfg_name = ''agent'', sys_prompt = ''be helpful'', cfg_model = m,
                 cfg_formatter = Inr, cfg_toolkit = Some echo_toolkit, cfg_memory = None,
                 long_term_memory = None, long_term_memory_mode = None, enable_meta_tool = None,
                 parallel_tool_calls = Some True, max_iters = k\<rparr>"

definition agent0 :: "IChatModel \<Rightarrow> int option \<Rightarrow> Agent" where
  "agent0 m k = projr (constructor (config0 m k))"

definition plain_model :: IChatModel where
  "plain_model n fm ts = Complete [TextBlock ''4'']"

definition complete_42 :: IChatModel where
  "complete_42 n fm ts = Complete [TextBlock ''42'']"

definition streamed_42 :: IChatModel where
  "streamed_42 n fm ts = Streamed [[TextBlock ''4''], [TextBlock ''42'']] None"

definition plain_msg :: Message where
  "plain_msg = \<lparr>name = ''agent'', content = Blocks [TextBlock ''4''], role = Assistant, metadata = JObj []\<rparr>"

text \<open>A tool with a required parameter called \<^verbatim>\<open>constructor\<close>, and a call that omits it.\<close>

definition describe :: ExternalFunction where
  "describe = \<lparr>fn_name = ''describe'', fn_doc = None, fn_source_params = [''constructor''],
               fn_call = (\<lambda>args. ToolYields
                            [new_ToolResponse ''described''
                               \<lparr>success = True, response_msg = None, others = []\<rparr> True] None)\<rparr>"

definition describe_schema :: ToolParameterSchema where
  "describe_schema = \<lparr>schema_type = ''object'',
                      properties = Some [(''constructor'', JObj [(''type'', JStr ''string'')])],
                      required = Some [''constructor'']\<rparr>"

definition describe_toolkit :: Toolkit where
  "describe_toolkit =
     registerToolWithMetadata (External describe) ''describe'' ''describe a class'' describe_schema
       new_Toolkit"

definition describe_call :: ToolUseBlock where
  "describe_call = \<lparr>tu_id = ''call-2'', tu_name = ''describe'', tu_input = []\<rparr>"

definition incomplete_echo_call :: ToolUseBlock where
  "incomplete_echo_call = \<lparr>tu_id = ''call-3'', tu_name = ''echo'', tu_input = []\<rparr>"

text \<open>
  Two structured-output contracts, as \<^verbatim>\<open>z.object({title: z.string()})\<close> and
  \<^verbatim>\<open>z.object({title: z.string().optional()})\<close> parse, and two completion requests.
\<close>

definition title_contract :: StructuredModel where
  "title_contract v =
     (case v of
        JObj kvs \<Rightarrow>
          (case map_of kvs ''title'' of
             Some (JStr t) \<Rightarrow> Inr (JObj [(''title'', JStr t)])
           | Some other \<Rightarrow> Inl ''ZodError: title: expected string''
           | None \<Rightarrow> Inl ''ZodError: title: required'')
      | _ \<Rightarrow> Inl ''ZodError: expected object'')"

definition optional_title_contract :: StructuredModel where
  "optional_title_contract v =
     (case v of
        JObj kvs \<Rightarrow>
          (case map_of kvs ''title'' of
             Some (JStr t) \<Rightarrow> Inr (JObj [(''title'', JStr t)])
           | Some other \<Rightarrow> Inl ''ZodError: title: expected string''
           | None \<Rightarrow> Inr (JObj []))
      | _ \<Rightarrow> Inl ''ZodError: expected object'')"

definition titled_call :: ToolUseBlock where
  "titled_call = \<lparr>tu_id = ''call-4'', tu_name = ''generate_response'',
                  tu_input = [(''response'', JStr ''done''), (''title'', JStr ''Report'')]\<rparr>"

definition mistitled_call :: ToolUseBlock where
  "mistitled_call = \<lparr>tu_id = ''call-5'', tu_name = ''generate_response'',
                     tu_input = [(''response'', JStr ''done''), (''title'', JNum 5)]\<rparr>"

text \<open>A tool that reports progress before its result, as \<^verbatim>\<open>executeShellCommand\<close> does.\<close>

definition progress :: ExternalFunction where
  "progress = \<lparr>fn_name = ''progress'', fn_doc = None, fn_source_params = [],
               fn_call = (\<lambda>args. ToolYields
                            [new_ToolResponse ''working''
                               \<lparr>success = True, response_msg = None, others = []\<rparr> False,
                             new_ToolResponse ''done''
                               \<lparr>success = True, response_msg = None, others = []\<rparr> True] None)\<rparr>"

definition progress_agent :: Agent where
  "progress_agent =
     (agent0 echo_model None)\<lparr>toolkit := registerToolFunction progress None
                                            (toolkit (agent0 echo_model None))\<rparr>"

definition progress_call :: ToolUseBlock where
  "progress_call = \<lparr>tu_id = ''call-6'', tu_name = ''progress'', tu_input = []\<rparr>"

fun starts_with :: "string \<Rightarrow> string \<Rightarrow> bool" where
  "starts_with s [] = True"
| "starts_with [] (c # t) = False"
| "starts_with (a # s) (c # t) = (a = c \<and> starts_with s t)"

fun includes_text :: "string \<Rightarrow> string \<Rightarrow> bool" where
  "includes_text [] t = (t = [])"
| "includes_text (a # s) t = (starts_with (a # s) t \<or> includes_text s t)"

text \<open>A hook that appends its own name to the string it is given.\<close>

definition tag :: "string \<Rightarrow> (string, string) HookFunction" where
  "tag n = \<lparr>as_pre = (\<lambda>k. HookReturns (Some (k @ n))),
            as_post = (\<lambda>k out. HookReturns (Some (out @ n)))\<rparr>"











section \<open>Toolkit: the equipped tools are registered tools\<close>

lemma set_set_add: "set (set_add x s) = insert x (set s)"
  by (auto simp: set_add_def)

lemma set_foldl_set_add: "set (foldl (\<lambda>s n. set_add n s) acc ns) = set acc \<union> set ns"
  by (induction ns arbitrary: acc) (auto simp: set_set_add)

lemma dom_AList_update: "fst ` set (AList.update k v m) = insert k (fst ` set m)"
  by (simp add: dom_update)

lemma dom_AList_delete: "fst ` set (AList.delete k m) = fst ` set m - {k}"
  by (auto simp: AList.delete_eq)

lemma resetEquippedTools_cases:
  "resetEquippedTools names T =
     (if \<exists>n\<in>set names. \<not> map_has n (tools T)
      then (Some (''Error: these tools do not exist: ''
                  @ join '', '' (filter (\<lambda>n. \<not> map_has n (tools T)) names)), T)
      else (None, T\<lparr>equippedTools := foldl (\<lambda>s n. set_add n s) [] names\<rparr>))"
  by (auto simp: resetEquippedTools_def Let_def filter_empty_conv)

text \<open>
  Claim C9. Every equipped name is a key of the registry: the invariant holds for a new
  toolkit and is kept by \<^verbatim>\<open>registerToolFunction\<close>, \<^verbatim>\<open>registerToolWithMetadata\<close>,
  \<^verbatim>\<open>resetEquippedTools\<close>, \<^verbatim>\<open>removeToolFunction\<close>, \<^verbatim>\<open>setExtendedModel\<close> and \<^verbatim>\<open>clear\<close>. \<^verbatim>\<open>resetEquippedTools\<close> never
  changes the registry; given a name that is not registered it throws and leaves the toolkit as
  it was; given registered names only it makes exactly those the equipped set.
\<close>

theorem toolkit_equipped_subset_registered:
  "equipped_registered new_Toolkit \<and>
   (equipped_registered T \<longrightarrow>
      equipped_registered (registerToolFunction f nm T) \<and>
      equipped_registered (registerToolWithMetadata g n d p T) \<and>
      equipped_registered (snd (resetEquippedTools names T)) \<and>
      equipped_registered (snd (removeToolFunction n T)) \<and>
      equipped_registered (setExtendedModel n sm T) \<and>
      equipped_registered (clear T)) \<and>
   tools (snd (resetEquippedTools names T)) = tools T \<and>
   ((\<exists>x\<in>set names. \<not> map_has x (tools T)) \<longrightarrow>
      fst (resetEquippedTools names T) \<noteq> None \<and> snd (resetEquippedTools names T) = T) \<and>
   ((\<forall>x\<in>set names. map_has x (tools T)) \<longrightarrow>
      fst (resetEquippedTools names T) = None \<and>
      set (equippedTools (snd (resetEquippedTools names T))) = set names)"
proof -
  have init: "equipped_registered new_Toolkit"
    by (simp add: equipped_registered_def new_Toolkit_def)
  have reset_tools: "tools (snd (resetEquippedTools names T)) = tools T"
    by (simp add: resetEquippedTools_cases)
  have reset_bad: "(\<exists>x\<in>set names. \<not> map_has x (tools T)) \<longrightarrow>
      fst (resetEquippedTools names T) \<noteq> None \<and> snd (resetEquippedTools names T) = T"
    by (simp add: resetEquippedTools_cases)
  have reset_ok: "(\<forall>x\<in>set names. map_has x (tools T)) \<longrightarrow>
      fst (resetEquippedTools names T) = None \<and>
      set (equippedTools (snd (resetEquippedTools names T))) = set names"
    by (simp add: resetEquippedTools_cases set_foldl_set_add)
  have pres: "equipped_registered (registerToolFunction f nm T) \<and>
      equipped_registered (registerToolWithMetadata g n d p T) \<and>
      equipped_registered (snd (resetEquippedTools names T)) \<and>
      equipped_registered (snd (removeToolFunction n T)) \<and>
      equipped_registered (setExtendedModel n sm T) \<and>
      equipped_registered (clear T)" if inv: "equipped_registered T"
  proof -
    have a: "equipped_registered (registerToolFunction f nm T)"
      using inv by (auto simp: equipped_registered_def registerToolFunction_def Let_def
          set_set_add dom_AList_update)
    have b: "equipped_registered (registerToolWithMetadata g n d p T)"
      using inv by (auto simp: equipped_registered_def registerToolWithMetadata_def
          set_set_add dom_AList_update)
    have c: "equipped_registered (snd (resetEquippedTools names T))"
      using inv by (auto simp: equipped_registered_def resetEquippedTools_cases
          set_foldl_set_add map_has_def)
    have d: "equipped_registered (snd (removeToolFunction n T))"
      using inv by (auto simp: equipped_registered_def removeToolFunction_def
          set_delete_def dom_AList_delete)
    have e: "equipped_registered (clear T)"
      by (simp add: equipped_registered_def clear_def)
    have x: "equipped_registered (setExtendedModel n sm T)"
      using inv by (auto simp: equipped_registered_def setExtendedModel_def dom_AList_update
          split: option.splits)
    from a b c d e x show ?thesis by blast
  qed
  from init pres reset_tools reset_bad reset_ok show ?thesis by blast
qed

theorem toolkit_equipped_subset_registered_witness:
  "equipped_registered echo_toolkit
   \<and> equipped_registered (registerToolFunction echo None echo_toolkit)
   \<and> equipped_registered (snd (removeToolFunction ''echo'' echo_toolkit))
   \<and> \<not> map_has ''shell'' (tools echo_toolkit)
   \<and> fst (resetEquippedTools [''echo'', ''shell''] echo_toolkit) \<noteq> None
   \<and> snd (resetEquippedTools [''echo'', ''shell''] echo_toolkit) = echo_toolkit
   \<and> map_has ''echo'' (tools echo_toolkit)
   \<and> fst (resetEquippedTools [''echo''] echo_toolkit) = None
   \<and> set (equippedTools (snd (resetEquippedTools [''echo''] echo_toolkit))) = {''echo''}"
proof -
  have inv: "equipped_registered echo_toolkit"
    by (simp add: equipped_registered_def echo_toolkit_def registerToolWithMetadata_def
        new_Toolkit_def set_add_def)
  have absent: "\<not> map_has ''shell'' (tools echo_toolkit)"
    by (simp add: map_has_def echo_toolkit_def registerToolWithMetadata_def new_Toolkit_def)
  have present: "map_has ''echo'' (tools echo_toolkit)"
    by (simp add: map_has_def echo_toolkit_def registerToolWithMetadata_def new_Toolkit_def)
  from absent have bad: "\<exists>x\<in>set [''echo'', ''shell'']. \<not> map_has x (tools echo_toolkit)"
    by simp
  from present have good: "\<forall>x\<in>set [''echo'']. map_has x (tools echo_toolkit)"
    by simp
  from toolkit_equipped_subset_registered
         [where T = echo_toolkit and f = echo and nm = None and n = "''echo''"
            and names = "[''echo'', ''shell'']"]
       toolkit_equipped_subset_registered
         [where T = echo_toolkit and f = echo and nm = None and n = "''echo''"
            and names = "[''echo'']"]
       inv absent present bad good
  show ?thesis by simp
qed


section \<open>Toolkit: a call that omits a required parameter\<close>

text \<open>
  When a required name is neither an own key of the arguments nor a member inherited from
  \<^verbatim>\<open>Object.prototype\<close>, the call yields one error response and nothing is thrown.
\<close>

lemma missing_required_parameter_fails_the_call:
  assumes "tu_name tc \<in> set (equippedTools T)"
    and "map_of (tools T) (tu_name tc) = Some tool"
    and "required (parameters tool) = Some rs"
    and "r \<in> set rs"
    and "\<not> js_in r (tu_input tc)"
  shows "\<exists>e. callToolFunction T tc = Gen_Yields [createErrorResponse e] None"
proof -
  from assms(4,5) have "find (\<lambda>r. \<not> js_in r (tu_input tc)) rs \<noteq> None"
    by (auto simp: find_None_iff)
  then obtain r' where "find (\<lambda>r. \<not> js_in r (tu_input tc)) rs = Some r'"
    by blast
  with assms(1,2,3) show ?thesis
    by (auto simp: callToolFunction_def validateInput_def createErrorGenerator_def)
qed

text \<open>
  Claim C6. The claim says that a call omitting a parameter that the schema requires ends in
  one error response with \<^verbatim>\<open>success = false\<close>. \<^verbatim>\<open>validateInput\<close> and
  \<^verbatim>\<open>callToolFunctionWithArgs\<close> test presence with the \<^verbatim>\<open>in\<close> operator, which is also true
  for the members every object inherits. A required parameter called \<^verbatim>\<open>constructor\<close> that
  the arguments \<^verbatim>\<open>{}\<close> omit is therefore not missed: the tool runs and its own successful
  response comes back. For a required parameter called \<^verbatim>\<open>message\<close> the same call shape gives
  the error response.
\<close>

theorem inherited_member_name_hides_missing_parameter:
  "required describe_schema = Some [''constructor'']
   \<and> map_of (tu_input describe_call) ''constructor'' = None
   \<and> callToolFunction describe_toolkit describe_call =
       Gen_Yields [new_ToolResponse ''described''
                     \<lparr>success = True, response_msg = None, others = []\<rparr> True] None
   \<and> callToolFunction echo_toolkit incomplete_echo_call =
       Gen_Yields [createErrorResponse ''tool function failed: Error: missing required parameter: message''] None"
  by code_simp


section \<open>Reasoning: the synthesized completion request\<close>

text \<open>
  Claim C2. When the message built from the model's response has no \<^verbatim>\<open>tool_use\<close> block,
  \<^verbatim>\<open>reasoning\<close> replaces its content by exactly one \<^verbatim>\<open>tool_use\<close> block that targets
  \<^verbatim>\<open>generate_response\<close> and whose only argument, \<^verbatim>\<open>response\<close>, is the text content of that
  message; the message so changed is what is returned and appended to the memory.
\<close>

theorem reasoning_synthesizes_completion_call:
  assumes "fst (model_output A) = Inr msg"
    and "getContentBlocks msg (Some ''tool_use'') = []"
  shows "fst (reasoning R A) =
           Inr (msg\<lparr>content :=
                      Blocks [ToolUse \<lparr>tu_id = generateShortUuid R (uuids_drawn (snd (model_output A))),
                                       tu_name = ''generate_response'',
                                       tu_input = [(''response'', JStr (getTextContent msg))]\<rparr>]\<rparr>)
         \<and> memory (snd (reasoning R A)) = memory (snd (model_output A)) @ [projr (fst (reasoning R A))]
         \<and> length (getContentBlocks (projr (fst (reasoning R A))) None) = 1"
  using assms
  by (simp add: reasoning_def hasContentBlocks_def Let_def split_beta setContent_def
      createToolUseBlock_def finishFunctionName_def memory_add_def getContentBlocks_def)

theorem reasoning_synthesizes_completion_call_witness:
  "fst (model_output (agent0 plain_model None)) = Inr plain_msg
   \<and> getContentBlocks plain_msg (Some ''tool_use'') = []
   \<and> fst (reasoning R0 (agent0 plain_model None)) =
       Inr (plain_msg\<lparr>content :=
              Blocks [ToolUse \<lparr>tu_id = ''uuid'', tu_name = ''generate_response'',
                               tu_input = [(''response'', JStr ''4'')]\<rparr>]\<rparr>)"
proof -
  have h1: "fst (model_output (agent0 plain_model None)) = Inr plain_msg"
    by code_simp
  have h2: "getContentBlocks plain_msg (Some ''tool_use'') = []"
    by code_simp
  have h3: "getTextContent plain_msg = ''4''"
    by code_simp
  have h4: "generateShortUuid R0 n = ''uuid''" for n
    by (simp add: R0_def)
  from reasoning_synthesizes_completion_call [OF h1 h2, of R0] h1 h2 h3 h4 show ?thesis
    by simp
qed


section \<open>Reasoning: a streamed response\<close>

text \<open>
  Claim C4. The claim says that a model which streams partial responses, each carrying the
  whole payload so far, leaves \<^verbatim>\<open>reasoning\<close> with the same message as a model that answers
  at once. The streaming branch of \<^verbatim>\<open>reasoning\<close> appends the content of every chunk to what it
  has already collected, so the earlier partial payloads stay in the message. For the answer
  ``42'', streamed as ``4'' and then ``42'', the completion request carries the two texts,
  not ``42''. (\<^verbatim>\<open>summarizing\<close> replaces the content at every chunk.)
\<close>

theorem streamed_reasoning_repeats_partial_payloads:
  "fst (reasoning R0 (agent0 complete_42 None)) =
     Inr \<lparr>name = ''agent'',
          content = Blocks [ToolUse \<lparr>tu_id = ''uuid'', tu_name = ''generate_response'',
                                     tu_input = [(''response'', JStr ''42'')]\<rparr>],
          role = Assistant, metadata = JObj []\<rparr>
   \<and> fst (reasoning R0 (agent0 streamed_42 None)) =
     Inr \<lparr>name = ''agent'',
          content = Blocks [ToolUse \<lparr>tu_id = ''uuid'', tu_name = ''generate_response'',
                                     tu_input = [(''response'', JStr ''4\<newline>42'')]\<rparr>],
          role = Assistant, metadata = JObj []\<rparr>"
  by code_simp


section \<open>The completion handler and the structured-output contract\<close>

text \<open>
  Claim C5. The claim says that the completion handler validates its argument against the
  contract of the call before it signals success. \<^verbatim>\<open>generateResponse\<close> parses
  \<^verbatim>\<open>kwargs[0] || {}\<close>, and the toolkit calls it with the parameters that the registered
  schema lists, which is \<^verbatim>\<open>response\<close> alone: whatever the request carries, the contract is
  applied to the empty object. With a contract that requires a string \<^verbatim>\<open>title\<close>, a request
  with \<^verbatim>\<open>title: "Report"\<close>, which the contract accepts, is answered by a failed result and no
  reply. With a contract whose \<^verbatim>\<open>title\<close> is optional, a request with \<^verbatim>\<open>title: 5\<close>, which
  the contract rejects, is answered by success and ends the loop.
\<close>

theorem completion_contract_is_applied_to_the_empty_object:
  "title_contract (JObj (tu_input titled_call)) = Inr (JObj [(''title'', JStr ''Report'')])
   \<and> fst (acting R0 titled_call (loop_start None (Some title_contract) (agent0 echo_model None))) = None
   \<and> last (memory (snd (acting R0 titled_call
                           (loop_start None (Some title_contract) (agent0 echo_model None))))) =
       toolResultMsg titled_call (JStr ''parameter validation error: ZodError: title: required'')
   \<and> optional_title_contract (JObj (tu_input mistitled_call)) = Inl ''ZodError: title: expected string''
   \<and> fst (acting R0 mistitled_call
             (loop_start None (Some optional_title_contract) (agent0 echo_model None))) =
       Some \<lparr>name = ''agent'', content = PlainText ''done'', role = Assistant, metadata = JObj []\<rparr>"
  by code_simp


section \<open>Acting: what is logged\<close>

lemma memory_print [simp]: "memory (print m l A) = memory A"
  by (simp add: print_def)

lemma memory_createResetToolsWrapper [simp]:
  "memory (snd (createResetToolsWrapper args A)) = memory A"
  by (simp add: createResetToolsWrapper_def Let_def split_beta
      split: list.splits jsval.splits option.splits)

lemma memory_run_generator [simp]: "memory (snd (run_generator g A)) = memory A"
  by (simp add: run_generator_def split_beta split: Generator.splits)

lemma memory_acting_chunks [simp]:
  "memory (snd (acting_chunks R tc chunks st A)) = memory A"
  by (induction chunks arbitrary: st A) (auto simp: Let_def split_beta)

lemma output_acting_chunks:
  "fst (fst (acting_chunks R tc chunks (out, r) A)) =
     (if chunks = [] then out else JStr (chunk_text R (last chunks)))"
  by (induction chunks arbitrary: out r A) (auto simp: Let_def)

lemma createResetToolsWrapper_events_irrelevant:
  "fst (createResetToolsWrapper args (A\<lparr>events := e\<rparr>)) = fst (createResetToolsWrapper args A)"
  by (simp add: createResetToolsWrapper_def Let_def split_beta
      split: list.splits jsval.splits option.splits)

lemma run_generator_events_irrelevant:
  "fst (run_generator g (A\<lparr>events := e\<rparr>)) = fst (run_generator g A)"
  by (simp add: run_generator_def split_beta generateResponse_def
      createResetToolsWrapper_events_irrelevant split: Generator.splits)

text \<open>
  Claim C7, as stated, at a tool that yields ``working'' and then ``done'': the logged
  \<^verbatim>\<open>tool_result\<close> holds ``done'' only; the first payload is not part of it.
\<close>

theorem tool_result_keeps_only_the_last_payload:
  "fst (run_generator (callToolFunction (toolkit progress_agent) progress_call) progress_agent) =
     ([new_ToolResponse ''working'' \<lparr>success = True, response_msg = None, others = []\<rparr> False,
       new_ToolResponse ''done'' \<lparr>success = True, response_msg = None, others = []\<rparr> True], None)
   \<and> memory (snd (acting R0 progress_call progress_agent)) =
       [toolResultMsg progress_call (JStr ''done'')]
   \<and> \<not> includes_text ''done'' ''working''"
  by code_simp

text \<open>
  Claim C7, amended. Every acting step appends exactly one \<^verbatim>\<open>tool_result\<close> message to the
  memory, after the results of the call are drained, on the error path too. Its output is the
  text of the last result observed (each result overwrites the output of the one before); it is
  the failure text when the sequence of results raises, and the empty array when there was no
  result at all.
\<close>

theorem acting_logs_last_result_once:
  assumes "fst (run_generator (callToolFunction (toolkit A) toolCall) A) = (chunks, err)"
  shows "memory (snd (acting R toolCall A)) =
           memory A @
           [toolResultMsg toolCall
              (case err of
                 Some e \<Rightarrow> JStr (''tool call failed: '' @ e)
               | None \<Rightarrow> if chunks = [] then JArr [] else JStr (chunk_text R (last chunks)))]"
proof -
  let ?A1 = "A\<lparr>events := events A @ [ToolCall toolCall]\<rparr>"
  let ?g = "callToolFunction (toolkit A) toolCall"
  have g: "fst (run_generator ?g ?A1) = (chunks, err)"
    using assms by (simp add: run_generator_events_irrelevant)
  show ?thesis
    using g
    by (simp add: acting_def toolkit_callToolFunction_def Let_def split_beta memory_add_def
        output_acting_chunks split: option.splits)
qed

theorem acting_logs_last_result_once_witness:
  "fst (run_generator (callToolFunction (toolkit progress_agent) progress_call) progress_agent) =
     ([new_ToolResponse ''working'' \<lparr>success = True, response_msg = None, others = []\<rparr> False,
       new_ToolResponse ''done'' \<lparr>success = True, response_msg = None, others = []\<rparr> True], None)
   \<and> memory (snd (acting R0 progress_call progress_agent)) =
       memory progress_agent @ [toolResultMsg progress_call (JStr ''done'')]"
proof -
  have h: "fst (run_generator (callToolFunction (toolkit progress_agent) progress_call) progress_agent) =
     ([new_ToolResponse ''working'' \<lparr>success = True, response_msg = None, others = []\<rparr> False,
       new_ToolResponse ''done'' \<lparr>success = True, response_msg = None, others = []\<rparr> True], None)"
    by code_simp
  have t: "chunk_text R0 (new_ToolResponse ''done'' \<lparr>success = True, response_msg = None, others = []\<rparr> True) = ''done''"
    by code_simp
  from acting_logs_last_result_once [OF h, of R0] h t show ?thesis
    by simp
qed


section \<open>Hook chains\<close>

lemma idx1: "is_array_index ''1''"
  by (simp add: is_array_index_def is_digit_def dec_value_def)

lemma idxb: "\<not> is_array_index ''b''" "\<not> is_array_index ''a''"
  by (simp_all add: is_array_index_def is_digit_def)

lemma reg1: "snd (registerInstanceHook pre_reply ''1'' (tag ''1'')
        (snd (registerInstanceHook pre_reply ''b'' (tag ''b'') new_instanceHooks)))
   = [(pre_reply, [(''b'', tag ''b''), (''1'', tag ''1'')]), (post_reply, []), (pre_print, []), (post_print, []), (pre_observe, []), (post_observe, [])]"
  by (simp add: registerInstanceHook_def new_instanceHooks_def AgentBase_supportedHookTypes_def object_set_def)

lemma ent1: "object_entries [(''b'', tag ''b''), (''1'', tag ''1'')] = [(''1'', tag ''1''), (''b'', tag ''b'')]"
  by (simp add: object_entries_def idx1 idxb)

lemma reg2: "snd (registerInstanceHook pre_reply ''a'' (tag ''a'')
        (snd (registerInstanceHook pre_reply ''b'' (tag ''b'') new_instanceHooks)))
   = [(pre_reply, [(''b'', tag ''b''), (''a'', tag ''a'')]), (post_reply, []), (pre_print, []), (post_print, []), (pre_observe, []), (post_observe, [])]"
  by (simp add: registerInstanceHook_def new_instanceHooks_def AgentBase_supportedHookTypes_def object_set_def)

lemma ent2: "object_entries [(''b'', tag ''b''), (''a'', tag ''a'')] = [(''b'', tag ''b''), (''a'', tag ''a'')]"
  by (simp add: object_entries_def idxb)

lemma as_pre_tag: "as_pre (tag n) k = HookReturns (Some (k @ n))"
  by (simp add: tag_def)

text \<open>
  In each of the six dispatchers every class-level hook is called before any instance-level
  hook, and within a scope the hooks are called in the order of the storage's entries, each
  with the value the chain has reached. In a Map a name registered for the first time comes
  last.
\<close>

lemma run_pre_hooks_order:
  "map (\<lambda>c. (fst c, fst (snd c))) (fst (run_pre_hooks sc es v)) = map (\<lambda>e. (sc, fst e)) es"
  by (induction es arbitrary: v) (auto simp: Let_def split_beta)

lemma run_post_hooks_order:
  "map (\<lambda>c. (fst c, fst (snd c))) (fst (run_post_hooks sc es a v)) = map (\<lambda>e. (sc, fst e)) es"
  by (induction es arbitrary: v) (auto simp: Let_def split_beta)

lemma run_pre_hooks_append:
  "run_pre_hooks sc (es1 @ es2) v =
     (fst (run_pre_hooks sc es1 v) @ fst (run_pre_hooks sc es2 (snd (run_pre_hooks sc es1 v))),
      snd (run_pre_hooks sc es2 (snd (run_pre_hooks sc es1 v))))"
  by (induction es1 arbitrary: v) (auto simp: Let_def split_beta)

lemma run_post_hooks_append:
  "run_post_hooks sc (es1 @ es2) a v =
     (fst (run_post_hooks sc es1 a v) @ fst (run_post_hooks sc es2 a (snd (run_post_hooks sc es1 a v))),
      snd (run_post_hooks sc es2 a (snd (run_post_hooks sc es1 a v))))"
  by (induction es1 arbitrary: v) (auto simp: Let_def split_beta)

lemma class_hooks_run_before_instance_hooks:
  "map (\<lambda>c. (fst c, fst (snd c))) (fst (applyPreHooks ch cls ih t k)) =
     map (\<lambda>e. (ClassLevel, fst e)) (class_hook_entries ch cls t)
     @ map (\<lambda>e. (InstanceLevel, fst e)) (instance_hook_entries ih t)"
  "map (\<lambda>c. (fst c, fst (snd c))) (fst (applyPostHooks ch cls ih t k out)) =
     map (\<lambda>e. (ClassLevel, fst e)) (class_hook_entries ch cls t)
     @ map (\<lambda>e. (InstanceLevel, fst e)) (instance_hook_entries ih t)"
  "map (\<lambda>c. (fst c, fst (snd c))) (fst (applyPreReasoningHooks C A rargs)) =
     map (\<lambda>e. (ClassLevel, fst e)) (class_entries (classReasoningHooks C) (className A))
     @ map (\<lambda>e. (InstanceLevel, fst e)) (instanceReasoningHooks A)"
  "map (\<lambda>c. (fst c, fst (snd c))) (fst (applyPostReasoningHooks C A rargs rout)) =
     map (\<lambda>e. (ClassLevel, fst e)) (class_entries (classReasoningHooks C) (className A))
     @ map (\<lambda>e. (InstanceLevel, fst e)) (instanceReasoningHooks A)"
  "map (\<lambda>c. (fst c, fst (snd c))) (fst (applyPreActingHooks C A aargs)) =
     map (\<lambda>e. (ClassLevel, fst e)) (class_entries (classActingHooks C) (className A))
     @ map (\<lambda>e. (InstanceLevel, fst e)) (instanceActingHooks A)"
  "map (\<lambda>c. (fst c, fst (snd c))) (fst (applyPostActingHooks C A aargs aout)) =
     map (\<lambda>e. (ClassLevel, fst e)) (class_entries (classActingHooks C) (className A))
     @ map (\<lambda>e. (InstanceLevel, fst e)) (instanceActingHooks A)"
  by (simp_all add: applyPreHooks_def applyPostHooks_def applyPreReasoningHooks_def
      applyPostReasoningHooks_def applyPreActingHooks_def applyPostActingHooks_def
      split_beta run_pre_hooks_order run_post_hooks_order)

lemma Map_set_new_key: "k \<notin> fst ` set m \<Longrightarrow> AList.update k v m = m @ [(k, v)]"
  by (induction m) auto

lemma new_reasoning_hook_runs_last:
  "hookName \<notin> fst ` set (instanceReasoningHooks A) \<Longrightarrow>
     instanceReasoningHooks (registerInstanceReasoningHook hookName hook A) =
       instanceReasoningHooks A @ [(hookName, hook)]"
  by (simp add: registerInstanceReasoningHook_def Map_set_new_key)

lemma new_acting_hook_runs_last:
  "hookName \<notin> fst ` set (instanceActingHooks A) \<Longrightarrow>
     instanceActingHooks (registerInstanceActingHook hookName hook A) =
       instanceActingHooks A @ [(hookName, hook)]"
  by (simp add: registerInstanceActingHook_def Map_set_new_key)

text \<open>
  Claim C8. The claim says that within a scope the hooks run in the order of their
  registration. \<^verbatim>\<open>AgentBase\<close> keeps the hooks of a lifecycle point in a plain object and
  walks \<^verbatim>\<open>Object.entries\<close> of it, which lists the names that are array indices first. An
  instance hook \<^verbatim>\<open>1\<close> registered after an instance hook \<^verbatim>\<open>b\<close> on \<^verbatim>\<open>pre_reply\<close> runs
  before it. With the names \<^verbatim>\<open>b\<close> and \<^verbatim>\<open>a\<close> the order is the order of registration, and
  so it is for \<^verbatim>\<open>b\<close> and \<^verbatim>\<open>1\<close> in the Map that \<^verbatim>\<open>ReActAgentBase\<close> uses for reasoning
  hooks.
\<close>

theorem numeric_hook_name_runs_first:
  "applyPreHooks [] ''ReActAgent''
     (snd (registerInstanceHook pre_reply ''1'' (tag ''1'')
        (snd (registerInstanceHook pre_reply ''b'' (tag ''b'') new_instanceHooks))))
     pre_reply []
   = ([(InstanceLevel, ''1'', []), (InstanceLevel, ''b'', ''1'')], ''1b'')
   \<and> applyPreHooks [] ''ReActAgent''
     (snd (registerInstanceHook pre_reply ''a'' (tag ''a'')
        (snd (registerInstanceHook pre_reply ''b'' (tag ''b'') new_instanceHooks))))
     pre_reply []
   = ([(InstanceLevel, ''b'', []), (InstanceLevel, ''a'', ''b'')], ''ba'')
   \<and> map (\<lambda>c. fst (snd c)) (fst (applyPreReasoningHooks C0
            (registerInstanceReasoningHook ''1'' h1
               (registerInstanceReasoningHook ''b'' hb (agent0 echo_model None))) []))
   = [''b'', ''1'']"
proof -
  have e1: "instance_hook_entries
     (snd (registerInstanceHook pre_reply ''1'' (tag ''1'')
        (snd (registerInstanceHook pre_reply ''b'' (tag ''b'') new_instanceHooks)))) pre_reply
     = [(''1'', tag ''1''), (''b'', tag ''b'')]"
    by (simp add: reg1 instance_hook_entries_def ent1)
  have e2: "instance_hook_entries
     (snd (registerInstanceHook pre_reply ''a'' (tag ''a'')
        (snd (registerInstanceHook pre_reply ''b'' (tag ''b'') new_instanceHooks)))) pre_reply
     = [(''b'', tag ''b''), (''a'', tag ''a'')]"
    by (simp add: reg2 instance_hook_entries_def ent2)
  have e3: "map (\<lambda>c. fst (snd c)) (fst (applyPreReasoningHooks C0
            (registerInstanceReasoningHook ''1'' h1
               (registerInstanceReasoningHook ''b'' hb (agent0 echo_model None))) []))
   = [''b'', ''1'']"
    by (simp add: applyPreReasoningHooks_def registerInstanceReasoningHook_def C0_def
        class_entries_def agent0_def constructor_def config0_def Let_def split_beta)
  show ?thesis
    by (simp add: e1 e2 e3 applyPreHooks_def class_hook_entries_def as_pre_tag)
qed


section \<open>What each operation does to the log of calls\<close>

lemma events_print [simp]: "events (print m l A) = events A"
  by (simp add: print_def)

lemma events_memory_add [simp]: "events (memory_add ms A) = events A"
  by (simp add: memory_add_def)

lemma events_reasoning_stream [simp]:
  "events (snd (reasoning_stream chunks acc msg A)) = events A"
  by (induction chunks arbitrary: acc msg A) (simp_all add: Let_def)

lemma events_summarizing_stream [simp]:
  "events (snd (summarizing_stream chunks msg A)) = events A"
  by (induction chunks arbitrary: msg A) (simp_all add: Let_def)

lemma events_reasoning_response [simp]:
  "events (snd (reasoning_response response A)) = events A"
  by (simp add: reasoning_response_def Let_def split_beta split: ModelResult.splits option.splits)

lemma events_model_output:
  "events (snd (model_output A)) =
     events A @ [ModelCall (formatter A (createSystemMessage (sysPrompt A) # memory A))
                   (Some (getJsonSchemas (toolkit A)))]"
  by (simp add: model_output_def model_call_def Let_def)

lemma events_reasoning:
  "events (snd (reasoning R A)) =
     events A @ [ModelCall (formatter A (createSystemMessage (sysPrompt A) # memory A))
                   (Some (getJsonSchemas (toolkit A)))]"
  using events_model_output [of A]
  by (simp add: reasoning_def Let_def split_beta split: sum.splits)

lemma events_reasoningWithHooks:
  "events (snd (reasoningWithHooks R C A)) =
     events A @ [ModelCall (formatter A (createSystemMessage (sysPrompt A) # memory A))
                   (Some (getJsonSchemas (toolkit A)))]"
  using events_reasoning [of R A]
  by (simp add: reasoningWithHooks_def Let_def split_beta split: sum.splits)

lemma events_createResetToolsWrapper [simp]:
  "events (snd (createResetToolsWrapper args A)) = events A"
  by (simp add: createResetToolsWrapper_def Let_def split_beta
      split: list.splits jsval.splits option.splits)

lemma events_run_generator [simp]: "events (snd (run_generator g A)) = events A"
  by (simp add: run_generator_def split_beta split: Generator.splits)

lemma events_acting_chunks [simp]:
  "events (snd (acting_chunks R tc chunks st A)) = events A"
  by (induction chunks arbitrary: st A) (auto simp: Let_def split_beta)

lemma events_acting: "events (snd (acting R tc A)) = events A @ [ToolCall tc]"
  by (simp add: acting_def toolkit_callToolFunction_def Let_def split_beta split: option.splits)

lemma events_actingWithHooks:
  "events (snd (actingWithHooks R C tc A)) =
     events A @ (case snd (applyPreActingHooks C A [tc]) of [] \<Rightarrow> [] | tc' # rest \<Rightarrow> [ToolCall tc'])"
  by (simp add: actingWithHooks_def Let_def split_beta events_acting split: list.splits)



lemma reasoning_calls_actingWithHooks [simp]:
  "reasoning_calls (snd (actingWithHooks R C tc A)) = reasoning_calls A"
  by (simp add: reasoning_calls_def events_actingWithHooks split: list.splits)

lemma length_start_all [simp]: "length (fst (start_all R C tcs A)) = length tcs"
  by (induction tcs arbitrary: A) (simp_all add: Let_def split_beta)


lemma reasoning_calls_start_all [simp]:
  "reasoning_calls (snd (start_all R C tcs A)) = reasoning_calls A"
  by (induction tcs arbitrary: A) (simp_all add: Let_def split_beta)


lemma await_each_promise_all:
  "await_each ps acc = (case promise_all ps of Inl e \<Rightarrow> Inl e | Inr vs \<Rightarrow> Inr (acc @ vs))"
  by (induction ps acc rule: await_each.induct) (auto split: sum.splits)




section \<open>Acting: every request is invoked, the first reply is adopted\<close>

text \<open>The steps of the loop leave the settings of the agent as they are.\<close>

lemma settings_print [simp]: "settings (print m l A) = settings A"
  by (simp add: print_def settings_def)

lemma settings_memory_add [simp]: "settings (memory_add ms A) = settings A"
  by (simp add: memory_add_def settings_def)

lemma settings_events [simp]: "settings (A\<lparr>events := e\<rparr>) = settings A"
  by (simp add: settings_def)

lemma settings_uuids [simp]: "settings (A\<lparr>uuids_drawn := u\<rparr>) = settings A"
  by (simp add: settings_def)

lemma settings_toolkit [simp]: "settings (A\<lparr>toolkit := T\<rparr>) = settings A"
  by (simp add: settings_def)

lemma settings_reasoning_stream [simp]:
  "settings (snd (reasoning_stream chunks acc msg A)) = settings A"
  by (induction chunks arbitrary: acc msg A) (simp_all add: Let_def)

lemma settings_reasoning_response [simp]:
  "settings (snd (reasoning_response response A)) = settings A"
  by (simp add: reasoning_response_def Let_def split_beta split: ModelResult.splits option.splits)

lemma settings_model_output [simp]: "settings (snd (model_output A)) = settings A"
  by (simp add: model_output_def model_call_def Let_def)

lemma settings_reasoning [simp]: "settings (snd (reasoning R A)) = settings A"
  by (simp add: reasoning_def Let_def split_beta split: sum.splits)

lemma settings_reasoningWithHooks [simp]: "settings (snd (reasoningWithHooks R C A)) = settings A"
  by (simp add: reasoningWithHooks_def Let_def split_beta split: sum.splits)

lemma settings_createResetToolsWrapper [simp]:
  "settings (snd (createResetToolsWrapper args A)) = settings A"
  by (simp add: createResetToolsWrapper_def Let_def split_beta
      split: list.splits jsval.splits option.splits)

lemma settings_run_generator [simp]: "settings (snd (run_generator g A)) = settings A"
  by (simp add: run_generator_def split_beta split: Generator.splits)

lemma settings_acting_chunks [simp]:
  "settings (snd (acting_chunks R tc chunks st A)) = settings A"
proof (induction chunks arbitrary: st A)
  case Nil
  then show ?case by simp
next
  case (Cons chunk chunks)
  obtain out r where st: "st = (out, r)" by (cases st)
  show ?case
    unfolding st by (simp add: Let_def Cons.IH)
qed

lemma settings_acting [simp]: "settings (snd (acting R tc A)) = settings A"
  by (simp add: acting_def toolkit_callToolFunction_def Let_def split_beta split: option.splits)

lemma settings_actingWithHooks [simp]: "settings (snd (actingWithHooks R C tc A)) = settings A"
  by (simp add: actingWithHooks_def Let_def split_beta split: list.splits)

lemma settings_start_all [simp]: "settings (snd (start_all R C tcs A)) = settings A"
  by (induction tcs arbitrary: A) (simp_all add: Let_def split_beta)

lemma settings_iteration [simp]: "settings (snd (iteration R C A)) = settings A"
  by (simp add: iteration_def Let_def split_beta split: sum.splits option.splits)

lemma without_hooks_settings:
  "settings B = settings A \<Longrightarrow> without_hooks C B = without_hooks C A"
  by (simp add: settings_def without_hooks_def)







section \<open>The loop: bound and summary\<close>

lemma reasoning_calls_reasoningWithHooks:
  "reasoning_calls (snd (reasoningWithHooks R C A)) = Suc (reasoning_calls A)"
  by (simp add: reasoning_calls_def events_reasoningWithHooks)

lemma reasoning_calls_iteration:
  "reasoning_calls (snd (iteration R C A)) = Suc (reasoning_calls A)"
  by (simp add: iteration_def Let_def split_beta reasoning_calls_reasoningWithHooks
      split: sum.splits option.splits)

lemma reasoning_calls_after_iterations:
  "reasoning_calls (after_iterations R C n A) = reasoning_calls A + n"
  by (induction n arbitrary: A) (simp_all add: reasoning_calls_iteration)

lemma reasoning_calls_react_loop:
  "reasoning_calls (snd (react_loop R C n A)) \<le> reasoning_calls A + n"
proof (induction n arbitrary: A)
  case 0
  then show ?case by simp
next
  case (Suc n)
  obtain outcome A1 where it: "iteration R C A = (outcome, A1)"
    by (cases "iteration R C A")
  then have one: "reasoning_calls A1 = Suc (reasoning_calls A)"
    using reasoning_calls_iteration [of R C A] by simp
  show ?case
  proof (cases outcome)
    case Continue
    with it one Suc.IH [of A1] show ?thesis by simp
  qed (use it one in simp_all)
qed

lemma continues_react_loop:
  "continues R C n A \<Longrightarrow> react_loop R C n A = (Inr None, after_iterations R C n A)"
proof (induction n arbitrary: A)
  case 0
  then show ?case by simp
next
  case (Suc n)
  obtain outcome A1 where it: "iteration R C A = (outcome, A1)"
    by (cases "iteration R C A")
  with Suc.prems have "outcome = Continue" and "continues R C n A1"
    by (cases outcome; simp)+
  with it Suc.IH [of A1] show ?case by simp
qed

lemma events_summarizing:
  "events (snd (summarizing A)) =
     events A @ [ModelCall (formatter A (createSystemMessage (sysPrompt A) # memory A
                                         @ [createUserMessage summarize_hint ''user''])) None]"
  by (simp add: summarizing_def model_call_def Let_def split_beta
      split: ModelResult.splits option.splits)

lemma memory_summarizing_stream [simp]:
  "memory (snd (summarizing_stream chunks msg A)) = memory A"
  by (induction chunks arbitrary: msg A) (simp_all add: Let_def print_def)

lemma memory_summarizing [simp]: "memory (snd (summarizing A)) = memory A"
  by (simp add: summarizing_def model_call_def Let_def split_beta print_def
      split: ModelResult.splits option.splits)

lemma staticControl_summarizing_stream [simp]:
  "staticControl (snd (summarizing_stream chunks msg A)) = staticControl A"
  by (induction chunks arbitrary: msg A) (simp_all add: Let_def print_def)

lemma staticControl_summarizing [simp]: "staticControl (snd (summarizing A)) = staticControl A"
  by (simp add: summarizing_def model_call_def Let_def split_beta print_def
      split: ModelResult.splits option.splits)

lemma events_loop_start [simp]: "events (loop_start msg sm A) = events A"
  by (simp add: loop_start_def Let_def split: option.splits)

lemma maxIters_loop_start [simp]: "maxIters (loop_start msg sm A) = maxIters A"
  by (simp add: loop_start_def Let_def memory_add_def split: option.splits)

lemma reasoning_calls_summarizing [simp]:
  "reasoning_calls (snd (summarizing A)) = reasoning_calls A"
  by (simp add: reasoning_calls_def events_summarizing)

lemma reasoning_calls_reply_le:
  "reasoning_calls (snd (reply R C msg sm A)) \<le> reasoning_calls A + nat (maxIters A)"
proof -
  let ?A3 = "loop_start msg sm A"
  have "reasoning_calls (snd (react_loop R C (nat (maxIters ?A3)) ?A3))
          \<le> reasoning_calls ?A3 + nat (maxIters ?A3)"
    by (rule reasoning_calls_react_loop)
  moreover have "reasoning_calls ?A3 = reasoning_calls A"
    by (simp add: reasoning_calls_def)
  moreover have "reasoning_calls (snd (reply R C msg sm A))
                   = reasoning_calls (snd (react_loop R C (nat (maxIters ?A3)) ?A3))"
    by (simp add: reply_def Let_def split_beta reasoning_calls_def events_summarizing
        split: sum.splits option.splits)
  ultimately show ?thesis by simp
qed


lemma reasoning_calls_react_loop_Suc:
  "Suc (reasoning_calls A) \<le> reasoning_calls (snd (react_loop R C (Suc n) A))"
proof (induction n arbitrary: A)
  case 0
  obtain outcome A1 where it: "iteration R C A = (outcome, A1)"
    by (cases "iteration R C A")
  then have one: "reasoning_calls A1 = Suc (reasoning_calls A)"
    using reasoning_calls_iteration [of R C A] by simp
  show ?case
    using it one by (cases outcome) simp_all
next
  case (Suc n)
  obtain outcome A1 where it: "iteration R C A = (outcome, A1)"
    by (cases "iteration R C A")
  then have one: "reasoning_calls A1 = Suc (reasoning_calls A)"
    using reasoning_calls_iteration [of R C A] by simp
  show ?case
  proof (cases outcome)
    case Continue
    with it one Suc.IH [of A1] show ?thesis by simp
  qed (use it one in simp_all)
qed

lemma reasoning_calls_reply:
  "reasoning_calls (snd (reply R C msg sm A)) =
     reasoning_calls (snd (react_loop R C (nat (maxIters A)) (loop_start msg sm A)))"
  by (simp add: reply_def Let_def split_beta reasoning_calls_def events_summarizing
      split: sum.splits option.splits)

lemma reasoning_calls_loop_start [simp]: "reasoning_calls (loop_start msg sm A) = reasoning_calls A"
  by (simp add: reasoning_calls_def)

text \<open>
  Without hooks, the message of a reasoning step has a tool call, so that no pass leaves the
  loop for want of one; and when, besides, the model asks for tools other than the completion
  action only, every pass ends with ``go on''.
\<close>

lemma tool_uses_filter:
  "tool_uses (filter (\<lambda>b. block_type b = ''tool_use'') bs) = tool_uses bs"
  by (induction bs rule: tool_uses.induct) simp_all

lemma tool_uses_empty:
  "tool_uses bs = [] \<longleftrightarrow> filter (\<lambda>b. block_type b = ''tool_use'') bs = []"
  by (induction bs rule: tool_uses.induct) simp_all

lemma tool_uses_getContentBlocks:
  "tool_uses (getContentBlocks m (Some ''tool_use'')) = [] \<longleftrightarrow> \<not> hasContentBlocks m ''tool_use''"
  by (cases "content m")
     (simp_all add: getContentBlocks_def hasContentBlocks_def tool_uses_filter tool_uses_empty)











lemma reasoning_has_tool_call:
  assumes "fst (reasoning R A) = Inr m"
  shows "tool_uses (getContentBlocks m (Some ''tool_use'')) \<noteq> []"
proof (cases "fst (model_output A)")
  case (Inl e)
  with assms show ?thesis
    by (simp add: reasoning_def split_beta)
next
  case (Inr msg)
  show ?thesis
  proof (cases "hasContentBlocks msg ''tool_use''")
    case True
    with Inr assms have "m = msg"
      by (simp add: reasoning_def split_beta)
    with True show ?thesis
      by (simp add: tool_uses_getContentBlocks)
  next
    case False
    with Inr assms show ?thesis
      by (auto simp: reasoning_def split_beta Let_def setContent_def createToolUseBlock_def
          getContentBlocks_def finishFunctionName_def)
  qed
qed

lemma reasoningWithHooks_without_hooks:
  assumes "without_hooks C A"
  shows "reasoningWithHooks R C A = reasoning R A"
proof -
  have "settings (snd (reasoning R A)) = settings A" by simp
  then have h: "without_hooks C (snd (reasoning R A))"
    using assms without_hooks_settings by blast
  show ?thesis
  proof (cases "fst (reasoning R A)")
    case (Inl e)
    then show ?thesis
      by (simp add: reasoningWithHooks_def Let_def split_beta prod_eq_iff)
  next
    case (Inr m)
    then show ?thesis
      using h
      by (simp add: reasoningWithHooks_def applyPostReasoningHooks_def without_hooks_def
          Let_def split_beta prod_eq_iff)
  qed
qed



lemma without_hooks_every_pass_has_a_tool_call:
  assumes "without_hooks C A"
  shows "fst (iteration R C A) \<noteq> NoToolCalls"
proof (cases "fst (reasoning R A)")
  case (Inl e)
  then show ?thesis
    by (simp add: iteration_def reasoningWithHooks_without_hooks [OF assms] split_beta)
next
  case (Inr m)
  from reasoning_has_tool_call [OF this]
  have "length (tool_uses (getContentBlocks m (Some ''tool_use''))) \<noteq> 0"
    by simp
  with Inr show ?thesis
    by (simp add: iteration_def reasoningWithHooks_without_hooks [OF assms] split_beta Let_def
        split: sum.splits option.splits)
qed

lemma without_hooks_loop_start [simp]: "without_hooks C (loop_start msg sm A) = without_hooks C A"
  by (simp add: loop_start_def without_hooks_def Let_def memory_add_def split: option.splits)

lemma model_loop_start [simp]: "model (loop_start msg sm A) = model A"
  by (simp add: loop_start_def Let_def memory_add_def split: option.splits)




text \<open>
  Claim C10. A configuration whose \<^verbatim>\<open>max_iters\<close> is 0 or absent gives an agent with the
  bound 10. A call of \<^verbatim>\<open>reply\<close> on the new agent makes at least one reasoning call and at
  most ten, and exactly ten when no pass ends the loop.
\<close>

theorem falsy_max_iters_defaults_to_ten:
  assumes "max_iters config = None \<or> max_iters config = Some 0"
    and "constructor config = Inr A"
  shows "maxIters A = 10
       \<and> 1 \<le> reasoning_calls (snd (reply R C msg sm A))
       \<and> reasoning_calls (snd (reply R C msg sm A)) \<le> 10
       \<and> (continues R C 10 (loop_start msg sm A) \<longrightarrow>
            reasoning_calls (snd (reply R C msg sm A)) = 10)"
proof -
  from assms have k: "maxIters A = 10" and e: "events A = []"
    by (auto simp: constructor_def Let_def split: if_splits)
  from e have r: "reasoning_calls A = 0"
    by (simp add: reasoning_calls_def)
  have le: "reasoning_calls (snd (reply R C msg sm A)) \<le> 10"
    using reasoning_calls_reply_le [of R C msg sm A] k r by simp
  have ge: "1 \<le> reasoning_calls (snd (reply R C msg sm A))"
    using reasoning_calls_react_loop_Suc [of "loop_start msg sm A" R C 9] k
    by (simp add: reasoning_calls_reply eval_nat_numeral)
  have eq: "reasoning_calls (snd (reply R C msg sm A)) = 10"
    if "continues R C 10 (loop_start msg sm A)"
    using continues_react_loop [OF that] k r
    by (simp add: reasoning_calls_reply reasoning_calls_after_iterations)
  from k le ge eq show ?thesis by blast
qed

theorem falsy_max_iters_defaults_to_ten_witness:
  "max_iters (config0 echo_model (Some 0)) = Some 0
   \<and> constructor (config0 echo_model (Some 0)) = Inr (agent0 echo_model (Some 0))
   \<and> maxIters (agent0 echo_model (Some 0)) = 10
   \<and> continues R0 C0 10 (loop_start None None (agent0 echo_model (Some 0)))
   \<and> reasoning_calls (snd (reply R0 C0 None None (agent0 echo_model (Some 0)))) = 10"
proof -
  have m: "max_iters (config0 echo_model (Some 0)) = Some 0"
    by (simp add: config0_def)
  have c: "constructor (config0 echo_model (Some 0)) = Inr (agent0 echo_model (Some 0))"
    by (simp add: agent0_def constructor_def config0_def Let_def)
  have n: "continues R0 C0 10 (loop_start None None (agent0 echo_model (Some 0)))"
    by code_simp
  from falsy_max_iters_defaults_to_ten [OF disjI2 [OF m] c, of R0 C0 None None] m c n
  show ?thesis by simp
qed

end
